theory Spec2Isabelle
  imports Main "HOL-Library.Word"
begin

section \<open>Python values\<close>

text \<open>
  The values the client handles: what \<open>response.json()\<close> returns, what is passed as
  \<open>json=payload\<close>, raw bytes, and dataclass instances (\<open>PObj\<close> holds the instance's
  \<open>__dict__\<close>). A dict is an association list in insertion order. JSON numbers are
  integers here; Python's floats are outside this development.
\<close>

datatype pyval =
    PNone
  | PBool bool
  | PInt int
  | PStr string
  | PBytes "8 word list"
  | PList "pyval list"
  | PDict "(string \<times> pyval) list"
  | PObj "(string \<times> pyval) list"

text \<open>Python's truth value testing, as used by \<open>if x:\<close> and \<open>not x\<close>.\<close>

fun truthy :: "pyval \<Rightarrow> bool" where
  "truthy PNone = False"
| "truthy (PBool b) = b"
| "truthy (PInt n) = (n \<noteq> 0)"
| "truthy (PStr s) = (s \<noteq> [])"
| "truthy (PBytes bs) = (bs \<noteq> [])"
| "truthy (PList xs) = (xs \<noteq> [])"
| "truthy (PDict kvs) = (kvs \<noteq> [])"
| "truthy (PObj fs) = True"

text \<open>An f-string is kept as its pieces: literal text and interpolated values.\<close>

datatype frag = Lit string | Val pyval

section \<open>exceptions.py\<close>

datatype exn_class =
    ProofpointApiException
  | ProofpointApiAuthError
  | ProofpointApiBadRequestError
  | ProofpointApiRateLimitError

text \<open>
  \<open>Api cls status_code response_text args\<close> is an instance of one of the four classes of
  exceptions.py with its two attributes and the full message handed to \<open>Exception\<close>.
  The other constructors are the built-in exceptions the client's code can raise.
\<close>

datatype error =
    Api exn_class "int option" "string option" "frag list"
  | AttributeError
  | KeyError string
  | TypeError
  | OverflowError
  | JSONDecodeError string

text \<open>The three specialised classes derive from \<open>ProofpointApiException\<close>.\<close>

fun issubclass :: "exn_class \<Rightarrow> exn_class \<Rightarrow> bool" where
  "issubclass c ProofpointApiException = True"
| "issubclass c c' = (c = c')"

fun isinstance :: "error \<Rightarrow> exn_class \<Rightarrow> bool" where
  "isinstance (Api c st rt args) c' = issubclass c c'"
| "isinstance err c' = False"

fun py_opt_int :: "int option \<Rightarrow> pyval" where
  "py_opt_int None = PNone"
| "py_opt_int (Some n) = PInt n"

fun py_opt_str :: "string option \<Rightarrow> pyval" where
  "py_opt_str None = PNone"
| "py_opt_str (Some s) = PStr s"

text \<open>\<open>ProofpointApiException.__init__\<close> (exceptions.py, lines 3-9).\<close>

definition raise_api :: "exn_class \<Rightarrow> frag list \<Rightarrow> int option \<Rightarrow> string option \<Rightarrow> error" where
  "raise_api cls message status_code response_text =
     (let full_message = [Lit ''['', Val (py_opt_int status_code), Lit ''] ''] @ message;
          full_message' =
            (if truthy (py_opt_str response_text)
             then full_message @ [Lit (CHR 0x0A # ''Response: ''), Val (py_opt_str response_text)]
             else full_message)
      in Api cls status_code response_text full_message')"

section \<open>Dictionaries and arithmetic\<close>

text \<open>\<open>d[k] = v\<close>: an existing key keeps its position, a new key goes last.\<close>

fun py_setitem :: "(string \<times> pyval) list \<Rightarrow> string \<Rightarrow> pyval \<Rightarrow> (string \<times> pyval) list" where
  "py_setitem [] k v = [(k, v)]"
| "py_setitem ((k', v') # d) k v =
     (if k' = k then (k, v) # d else (k', v') # py_setitem d k v)"

text \<open>\<open>obj[key]\<close> with a string key: only a dict can be subscripted by a string.\<close>

fun py_getitem :: "pyval \<Rightarrow> string \<Rightarrow> error + pyval" where
  "py_getitem (PDict d) k = (case map_of d k of None \<Rightarrow> Inl (KeyError k) | Some v \<Rightarrow> Inr v)"
| "py_getitem obj k = Inl TypeError"

text \<open>\<open>obj.get(key, default)\<close>: only a dict has the method.\<close>

fun py_get :: "pyval \<Rightarrow> string \<Rightarrow> pyval \<Rightarrow> error + pyval" where
  "py_get (PDict d) k dflt = (case map_of d k of None \<Rightarrow> Inr dflt | Some v \<Rightarrow> Inr v)"
| "py_get obj k dflt = Inl AttributeError"

text \<open>\<open>x - n\<close> for an integer \<open>n\<close>: \<open>bool\<close> is a subclass of \<open>int\<close>.\<close>

fun py_sub :: "pyval \<Rightarrow> int \<Rightarrow> error + int" where
  "py_sub (PInt m) n = Inr (m - n)"
| "py_sub (PBool b) n = Inr ((if b then 1 else 0) - n)"
| "py_sub x n = Inl TypeError"

text \<open>
  Instants (\<open>datetime\<close>) and durations (\<open>timedelta\<close>) are counted in microseconds, an
  instant from \<open>datetime.min\<close>. A \<open>timedelta\<close> holds at most 999999999 days either
  way; a \<open>datetime\<close> lies between the years 1 and 9999.
\<close>

definition timedelta_seconds :: "int \<Rightarrow> error + int" where
  "timedelta_seconds n =
     (if - 999999999 \<le> n div 86400 \<and> n div 86400 \<le> 999999999
      then Inr (n * 1000000) else Inl OverflowError)"

definition datetime_max :: int where
  "datetime_max = 3652059 * 86400 * 1000000"

definition datetime_add :: "int \<Rightarrow> int \<Rightarrow> error + int" where
  "datetime_add t d =
     (if 0 \<le> t + d \<and> t + d < datetime_max then Inr (t + d) else Inl OverflowError)"

section \<open>models.py\<close>

record SortParam =
  colId :: string
  sort :: string

record TimeRangeFilter =
  start :: string
  end' :: string

record IncidentFilters =
  time_range_filter :: "TimeRangeFilter option"
  incident_id_filters :: "string list option"
  other_filters :: "string list option"
  priority_filters :: "string list option"
  source_filters :: "string list option"
  disposition_filters :: "string list option"
  verdict_filters :: "string list option"
  confidence_filters :: "string list option"

record MessageFilters = IncidentFilters +
  message_id_filters :: "string list option"
  recipient_address_filters :: "string list option"
  sender_address_filters :: "string list option"
  subject_filters :: "string list option"
  status_filters :: "string list option"
  quarantine_filters :: "string list option"
  tap_threat_filters :: "string list option"
  tap_threat_type_filters :: "string list option"

text \<open>
  The \<open>__dict__\<close> of an instance: its fields in declaration order (the base class's
  first), a field left at its default being \<open>None\<close>.
\<close>

definition py_strs :: "string list \<Rightarrow> pyval" where
  "py_strs xs = PList (map PStr xs)"

fun py_opt_strs :: "string list option \<Rightarrow> pyval" where
  "py_opt_strs None = PNone"
| "py_opt_strs (Some xs) = py_strs xs"

definition SortParam_dict :: "SortParam \<Rightarrow> (string \<times> pyval) list" where
  "SortParam_dict p = [(''colId'', PStr (colId p)), (''sort'', PStr (sort p))]"

definition TimeRangeFilter_dict :: "TimeRangeFilter \<Rightarrow> (string \<times> pyval) list" where
  "TimeRangeFilter_dict t = [(''start'', PStr (start t)), (''end'', PStr (end' t))]"

fun py_opt_time_range :: "TimeRangeFilter option \<Rightarrow> pyval" where
  "py_opt_time_range None = PNone"
| "py_opt_time_range (Some t) = PObj (TimeRangeFilter_dict t)"

definition IncidentFilters_dict :: "'a IncidentFilters_scheme \<Rightarrow> (string \<times> pyval) list" where
  "IncidentFilters_dict f =
     [(''time_range_filter'', py_opt_time_range (time_range_filter f)),
      (''incident_id_filters'', py_opt_strs (incident_id_filters f)),
      (''other_filters'', py_opt_strs (other_filters f)),
      (''priority_filters'', py_opt_strs (priority_filters f)),
      (''source_filters'', py_opt_strs (source_filters f)),
      (''disposition_filters'', py_opt_strs (disposition_filters f)),
      (''verdict_filters'', py_opt_strs (verdict_filters f)),
      (''confidence_filters'', py_opt_strs (confidence_filters f))]"

definition MessageFilters_dict :: "MessageFilters \<Rightarrow> (string \<times> pyval) list" where
  "MessageFilters_dict f =
     IncidentFilters_dict f @
     [(''message_id_filters'', py_opt_strs (message_id_filters f)),
      (''recipient_address_filters'', py_opt_strs (recipient_address_filters f)),
      (''sender_address_filters'', py_opt_strs (sender_address_filters f)),
      (''subject_filters'', py_opt_strs (subject_filters f)),
      (''status_filters'', py_opt_strs (status_filters f)),
      (''quarantine_filters'', py_opt_strs (quarantine_filters f)),
      (''tap_threat_filters'', py_opt_strs (tap_threat_filters f)),
      (''tap_threat_type_filters'', py_opt_strs (tap_threat_type_filters f))]"

section \<open>client.py: the serializer\<close>

text \<open>
  \<open>asdict_factory\<close> and its inner \<open>convert_value\<close> (client.py, lines 13-20). A list is
  converted element by element, a dataclass instance becomes the dict of its fields that
  are not \<open>None\<close>, anything else (a plain dict too) is returned as it is.
\<close>

fun convert_value :: "pyval \<Rightarrow> pyval" where
  "convert_value (PList xs) = PList (map convert_value xs)"
| "convert_value (PObj fs) =
     PDict (map (\<lambda>(k, v). (k, convert_value v)) (filter (\<lambda>(k, v). v \<noteq> PNone) fs))"
| "convert_value obj = obj"

definition asdict_factory :: "(string \<times> pyval) list \<Rightarrow> (string \<times> pyval) list" where
  "asdict_factory data =
     map (\<lambda>(k, v). (k, convert_value v)) (filter (\<lambda>(k, v). v \<noteq> PNone) data)"

section \<open>The transport\<close>

text \<open>
  The \<open>requests\<close> library is outside the client. A call to it either raises a
  \<open>RequestException\<close> (with its description) or returns a response, of which the client
  reads \<open>status_code\<close>, \<open>text\<close>, \<open>content\<close> and \<open>json()\<close>. When the body is not
  JSON, \<open>json()\<close> raises a \<open>ValueError\<close>; whether that error is a \<open>RequestException\<close>
  as well depends on the version of the library, so the outcome says which.
\<close>

datatype json_outcome = JsonOk pyval | JsonFail bool string

record Response =
  status_code :: int
  text' :: string
  content :: "8 word list"
  json :: json_outcome

datatype reply = Failed string | Answered Response

text \<open>
  What one call into the client meets: the clock read by \<open>_ensure_valid_token\<close>
  (client.py, line 100), the outcome of the POST to the token endpoint and the clock read
  once it has answered (line 91), both used only when a refresh happens, and the outcome
  of the API call.
\<close>

record env =
  clock_ensure :: int
  token_reply :: reply
  clock_refresh :: int
  api_reply :: reply

text \<open>The keyword arguments the endpoint methods hand to \<open>_request\<close>.\<close>

datatype kwargs = NoArgs | Params "(string \<times> pyval) list" | Json pyval

text \<open>The calls made on the network, in order.\<close>

datatype http_call =
    TokenPost string "(string \<times> string) list" "(string \<times> string) list"
  | SessionRequest string string "(string \<times> frag list) list" kwargs

fun is_token_post :: "http_call \<Rightarrow> bool" where
  "is_token_post (TokenPost url form headers) = True"
| "is_token_post (SessionRequest method url headers kw) = False"

section \<open>client.py: token management\<close>

text \<open>
  The fields of \<open>ProofpointApiClient\<close>, and \<open>wire\<close>: the calls it has made so far.
\<close>

record client =
  base_url :: string
  token_url :: string
  client_id :: string
  client_secret :: string
  access_token :: pyval
  token_expiry :: "int option"
  wire :: "http_call list"

definition token_posts :: "client \<Rightarrow> nat" where
  "token_posts s = length (filter is_token_post (wire s))"

text \<open>
  \<open>_refresh_token\<close> (client.py, lines 61-94). The result is the exception raised, if
  any, and the client as the method leaves it. An exception of the client's own classes
  is not a \<open>RequestException\<close>, so the handler of line 93 lets it through.
\<close>

definition refresh_token :: "env \<Rightarrow> client \<Rightarrow> (error + unit) \<times> client" where
  "refresh_token e s =
     (let s1 = s\<lparr>wire := wire s @
                 [TokenPost (token_url s)
                    [(''grant_type'', ''client_credentials''),
                     (''client_id'', client_id s),
                     (''client_secret'', client_secret s)]
                    [(''Content-Type'', ''application/x-www-form-urlencoded'')]]\<rparr>
      in case token_reply e of
           Failed d \<Rightarrow>
             (Inl (raise_api ProofpointApiException
                     [Lit ''Failed to obtain access token: '', Val (PStr d)] None None), s1)
         | Answered response \<Rightarrow>
             if status_code response \<noteq> 200
             then (Inl (raise_api ProofpointApiAuthError [Lit ''Failed to obtain access token'']
                          (Some (status_code response)) (Some (text' response))), s1)
             else
               (case json response of
                  JsonFail is_request_exception d \<Rightarrow>
                    (if is_request_exception
                     then Inl (raise_api ProofpointApiException
                                 [Lit ''Failed to obtain access token: '', Val (PStr d)] None None)
                     else Inl (JSONDecodeError d), s1)
                | JsonOk token_data \<Rightarrow>
                    (case py_getitem token_data ''access_token'' of
                       Inl err \<Rightarrow> (Inl err, s1)
                     | Inr tok \<Rightarrow>
                         (let s2 = s1\<lparr>access_token := tok\<rparr>
                          in case py_get token_data ''expires_in'' (PInt 3600) of
                               Inl err \<Rightarrow> (Inl err, s2)
                             | Inr expires_in \<Rightarrow>
                                 (case py_sub expires_in 300 of
                                    Inl err \<Rightarrow> (Inl err, s2)
                                  | Inr secs \<Rightarrow>
                                      (case timedelta_seconds secs of
                                         Inl err \<Rightarrow> (Inl err, s2)
                                       | Inr delta \<Rightarrow>
                                           (case datetime_add (clock_refresh e) delta of
                                              Inl err \<Rightarrow> (Inl err, s2)
                                            | Inr expiry \<Rightarrow>
                                                (Inr (), s2\<lparr>token_expiry := Some expiry\<rparr>))))))))"

text \<open>
  \<open>_ensure_valid_token\<close> (client.py, lines 96-101). A \<open>datetime\<close> is always true, so
  \<open>not self._token_expiry\<close> holds only of \<open>None\<close>.
\<close>

definition ensure_valid_token :: "env \<Rightarrow> client \<Rightarrow> (error + unit) \<times> client" where
  "ensure_valid_token e s =
     (if \<not> truthy (access_token s) \<or> token_expiry s = None then refresh_token e s
      else if the (token_expiry s) \<le> clock_ensure e then refresh_token e s
      else (Inr (), s))"

text \<open>
  \<open>__init__\<close> (client.py, lines 30-59): the fields are set, then the first token is
  fetched; when that raises there is no client.
\<close>

definition default_base_url :: string where
  "default_base_url = ''https://threatprotection-api.proofpoint.com''"

definition default_token_url :: string where
  "default_token_url = ''https://auth.proofpoint.com/v1/token''"

definition new_client :: "string \<Rightarrow> string \<Rightarrow> string \<Rightarrow> string \<Rightarrow> client" where
  "new_client cid secret burl turl =
     \<lparr>base_url = burl, token_url = turl, client_id = cid, client_secret = secret,
      access_token = PNone, token_expiry = None, wire = []\<rparr>"

definition init :: "env \<Rightarrow> string \<Rightarrow> string \<Rightarrow> string \<Rightarrow> string \<Rightarrow> error + client" where
  "init e cid secret burl turl =
     (case refresh_token e (new_client cid secret burl turl) of
        (Inl err, s) \<Rightarrow> Inl err
      | (Inr u, s) \<Rightarrow> Inr s)"

section \<open>client.py: dispatch and error mapping\<close>

text \<open>
  \<open>_handle_error\<close> (client.py, lines 150-169) never returns: its value here is the
  exception that leaves it. The handler of line 155 catches the \<open>ValueError\<close> of
  \<open>json()\<close> and nothing else.
\<close>

definition handle_error :: "Response \<Rightarrow> error" where
  "handle_error response =
     (case (case json response of
              JsonOk error_data \<Rightarrow> py_get error_data ''errorMessage'' (PStr (text' response))
            | JsonFail is_request_exception d \<Rightarrow> Inr (PStr (text' response))) of
        Inl err \<Rightarrow> err
      | Inr message \<Rightarrow>
          if status_code response = 400
          then raise_api ProofpointApiBadRequestError [Val message]
                 (Some (status_code response)) (Some (text' response))
          else if status_code response \<in> set [401, 403]
          then raise_api ProofpointApiAuthError [Val message]
                 (Some (status_code response)) (Some (text' response))
          else if status_code response = 429
          then raise_api ProofpointApiRateLimitError [Val message]
                 (Some (status_code response)) (Some (text' response))
          else raise_api ProofpointApiException [Lit ''An unknown error occurred: '', Val message]
                 (Some (status_code response)) (Some (text' response)))"

text \<open>
  \<open>_request\<close> (client.py, lines 103-148). The result is the value returned or the
  exception raised, and the client afterwards.
\<close>

definition request ::
  "env \<Rightarrow> string \<Rightarrow> string \<Rightarrow> bool \<Rightarrow> kwargs \<Rightarrow> client \<Rightarrow> (error + pyval) \<times> client" where
  "request e method endpoint return_json kw s =
     (case ensure_valid_token e s of
        (Inl err, s1) \<Rightarrow> (Inl err, s1)
      | (Inr u, s1) \<Rightarrow>
          (let url = base_url s1 @ endpoint;
               headers = [(''Authorization'', [Lit ''Bearer '', Val (access_token s1)])];
               s2 = s1\<lparr>wire := wire s1 @ [SessionRequest method url headers kw]\<rparr>
           in case api_reply e of
                Failed d \<Rightarrow>
                  (Inl (raise_api ProofpointApiException
                          [Lit ''Request failed: '', Val (PStr d)] None None), s2)
              | Answered response \<Rightarrow>
                  if 400 \<le> status_code response \<and> status_code response < 600
                  then (Inl (handle_error response), s2)
                  else if return_json
                  then (if text' response \<noteq> []
                        then (case json response of
                                JsonOk v \<Rightarrow> (Inr v, s2)
                              | JsonFail is_request_exception d \<Rightarrow>
                                  (if is_request_exception
                                   then Inl (raise_api ProofpointApiException
                                               [Lit ''Request failed: '', Val (PStr d)] None None)
                                   else Inl (JSONDecodeError d), s2))
                        else (Inr (PDict []), s2))
                  else (Inr (PBytes (content response)), s2)))"

section \<open>client.py: endpoint methods\<close>

text \<open>
  The payload of \<open>search_incidents\<close> (client.py, lines 243-250). A dataclass instance
  is always true, so \<open>if filters:\<close> asks whether filters were given; a list is true
  when it is not empty.
\<close>

fun py_opt_sort_params :: "SortParam list option \<Rightarrow> pyval" where
  "py_opt_sort_params None = PNone"
| "py_opt_sort_params (Some ps) = PList (map (\<lambda>p. PObj (SortParam_dict p)) ps)"

fun sort_params_dicts :: "SortParam list option \<Rightarrow> pyval" where
  "sort_params_dicts None = PList []"
| "sort_params_dicts (Some ps) = PList (map (\<lambda>p. PDict (SortParam_dict p)) ps)"

definition search_incidents_payload ::
  "IncidentFilters option \<Rightarrow> int \<Rightarrow> int \<Rightarrow> SortParam list option \<Rightarrow> (string \<times> pyval) list" where
  "search_incidents_payload filters start_row end_row sort_params =
     (let payload = [(''startRow'', PInt start_row), (''endRow'', PInt end_row)];
          payload = (case filters of
                       None \<Rightarrow> payload
                     | Some f \<Rightarrow>
                         py_setitem payload ''filters'' (PDict (asdict_factory (IncidentFilters_dict f))));
          payload = (if truthy (py_opt_sort_params sort_params)
                     then py_setitem payload ''sortParams'' (sort_params_dicts sort_params)
                     else payload)
      in payload)"

definition search_incidents ::
  "env \<Rightarrow> IncidentFilters option \<Rightarrow> int \<Rightarrow> int \<Rightarrow> SortParam list option \<Rightarrow> client
     \<Rightarrow> (error + pyval) \<times> client" where
  "search_incidents e filters start_row end_row sort_params s =
     request e ''POST'' ''/api/v1/tric/incidents'' True
       (Json (PDict (search_incidents_payload filters start_row end_row sort_params))) s"

text \<open>\<open>get_incident_count\<close> (client.py, lines 254-265).\<close>

definition get_incident_count_payload :: "IncidentFilters \<Rightarrow> (string \<times> pyval) list" where
  "get_incident_count_payload filters =
     [(''filters'', PDict (asdict_factory (IncidentFilters_dict filters)))]"

definition get_incident_count :: "env \<Rightarrow> IncidentFilters \<Rightarrow> client \<Rightarrow> (error + pyval) \<times> client" where
  "get_incident_count e filters s =
     request e ''POST'' ''/api/v1/tric/incidents/count'' True
       (Json (PDict (get_incident_count_payload filters))) s"

text \<open>\<open>search_messages\<close> (client.py, lines 373-401).\<close>

definition search_messages_payload ::
  "MessageFilters option \<Rightarrow> int \<Rightarrow> int \<Rightarrow> SortParam list option \<Rightarrow> (string \<times> pyval) list" where
  "search_messages_payload filters start_row end_row sort_params =
     (let payload = [(''startRow'', PInt start_row), (''endRow'', PInt end_row)];
          payload = (case filters of
                       None \<Rightarrow> payload
                     | Some f \<Rightarrow>
                         py_setitem payload ''filters'' (PDict (asdict_factory (MessageFilters_dict f))));
          payload = (if truthy (py_opt_sort_params sort_params)
                     then py_setitem payload ''sortParams'' (sort_params_dicts sort_params)
                     else payload)
      in payload)"

definition search_messages ::
  "env \<Rightarrow> MessageFilters option \<Rightarrow> int \<Rightarrow> int \<Rightarrow> SortParam list option \<Rightarrow> client
     \<Rightarrow> (error + pyval) \<times> client" where
  "search_messages e filters start_row end_row sort_params s =
     request e ''POST'' ''/api/v1/tric/messages'' True
       (Json (PDict (search_messages_payload filters start_row end_row sort_params))) s"

text \<open>\<open>upload_message\<close> (client.py, lines 331-369).\<close>

definition upload_message_message ::
  "string \<Rightarrow> string list \<Rightarrow> string option \<Rightarrow> string option \<Rightarrow> string option
     \<Rightarrow> (string \<times> pyval) list" where
  "upload_message_message rfc_message_id recipient_addresses sender subject disposition =
     (let message = [(''rfcMessageId'', PStr rfc_message_id),
                     (''recipient_addresses'', py_strs recipient_addresses)];
          message = (if truthy (py_opt_str sender)
                     then py_setitem message ''sender'' (py_opt_str sender) else message);
          message = (if truthy (py_opt_str subject)
                     then py_setitem message ''subject'' (py_opt_str subject) else message);
          message = (if truthy (py_opt_str disposition)
                     then py_setitem message ''disposition'' (py_opt_str disposition) else message)
      in message)"

definition upload_message_payload ::
  "string \<Rightarrow> string \<Rightarrow> string list \<Rightarrow> string option \<Rightarrow> string option \<Rightarrow> string option
     \<Rightarrow> (string \<times> pyval) list" where
  "upload_message_payload incident_id rfc_message_id recipient_addresses sender subject disposition =
     [(''incident_id'', PStr incident_id),
      (''message'', PDict (upload_message_message rfc_message_id recipient_addresses
                             sender subject disposition))]"

definition upload_message ::
  "env \<Rightarrow> string \<Rightarrow> string \<Rightarrow> string list \<Rightarrow> string option \<Rightarrow> string option \<Rightarrow> string option
     \<Rightarrow> client \<Rightarrow> (error + pyval) \<times> client" where
  "upload_message e incident_id rfc_message_id recipient_addresses sender subject disposition s =
     request e ''POST'' ''/api/v1/tric/incidents/uploadMessage'' True
       (Json (PDict (upload_message_payload incident_id rfc_message_id recipient_addresses
                       sender subject disposition))) s"

text \<open>\<open>download_message_mime\<close> (client.py, lines 439-449).\<close>

definition download_message_mime :: "env \<Rightarrow> string \<Rightarrow> client \<Rightarrow> (error + pyval) \<times> client" where
  "download_message_mime e message_id s =
     request e ''GET'' (''/api/v1/tric/messages/'' @ message_id @ ''/download'') False NoArgs s"

section \<open>Sequences of calls\<close>

text \<open>
  A caller makes one call after another on the same client, each meeting its own
  environment; an exception of one call is the caller's to handle and the client goes on.
\<close>

record api_call =
  call_env :: env
  call_method :: string
  call_endpoint :: string
  call_return_json :: bool
  call_kwargs :: kwargs

definition do_call :: "api_call \<Rightarrow> client \<Rightarrow> client" where
  "do_call c s =
     snd (request (call_env c) (call_method c) (call_endpoint c) (call_return_json c)
            (call_kwargs c) s)"

definition do_calls :: "api_call list \<Rightarrow> client \<Rightarrow> client" where
  "do_calls cs s = fold do_call cs s"

section \<open>What the specification asks of a serialized payload\<close>

text \<open>
  A payload can be sent as JSON with no explicit null under any key: no dict, at any
  depth, maps a key to \<open>None\<close>, and no dataclass instance is left unconverted.
\<close>

fun no_null_fields :: "pyval \<Rightarrow> bool" where
  "no_null_fields (PList xs) = list_all no_null_fields xs"
| "no_null_fields (PDict kvs) = list_all (\<lambda>(k, v). v \<noteq> PNone \<and> no_null_fields v) kvs"
| "no_null_fields (PObj fs) = False"
| "no_null_fields v = True"

text \<open>
  The trees the serializer is meant for: values, lists and dataclass instances, with no
  plain dict among them.
\<close>

fun value_objects :: "pyval \<Rightarrow> bool" where
  "value_objects (PList xs) = list_all value_objects xs"
| "value_objects (PDict kvs) = False"
| "value_objects (PObj fs) = list_all (\<lambda>(k, v). value_objects v) fs"
| "value_objects v = True"

text \<open>
  The filters object as the specification words it: an optional field is included only
  if provided, under its own name, a nested time range by its two fields.
\<close>

fun opt_field :: "string \<Rightarrow> ('a \<Rightarrow> pyval) \<Rightarrow> 'a option \<Rightarrow> (string \<times> pyval) list" where
  "opt_field k js None = []"
| "opt_field k js (Some x) = [(k, js x)]"

definition spec_time_range :: "TimeRangeFilter \<Rightarrow> pyval" where
  "spec_time_range t = PDict [(''start'', PStr (start t)), (''end'', PStr (end' t))]"

definition spec_incident_filters :: "'a IncidentFilters_scheme \<Rightarrow> (string \<times> pyval) list" where
  "spec_incident_filters f =
     opt_field ''time_range_filter'' spec_time_range (time_range_filter f) @
     opt_field ''incident_id_filters'' py_strs (incident_id_filters f) @
     opt_field ''other_filters'' py_strs (other_filters f) @
     opt_field ''priority_filters'' py_strs (priority_filters f) @
     opt_field ''source_filters'' py_strs (source_filters f) @
     opt_field ''disposition_filters'' py_strs (disposition_filters f) @
     opt_field ''verdict_filters'' py_strs (verdict_filters f) @
     opt_field ''confidence_filters'' py_strs (confidence_filters f)"

definition spec_message_filters :: "MessageFilters \<Rightarrow> (string \<times> pyval) list" where
  "spec_message_filters f =
     spec_incident_filters f @
     opt_field ''message_id_filters'' py_strs (message_id_filters f) @
     opt_field ''recipient_address_filters'' py_strs (recipient_address_filters f) @
     opt_field ''sender_address_filters'' py_strs (sender_address_filters f) @
     opt_field ''subject_filters'' py_strs (subject_filters f) @
     opt_field ''status_filters'' py_strs (status_filters f) @
     opt_field ''quarantine_filters'' py_strs (quarantine_filters f) @
     opt_field ''tap_threat_filters'' py_strs (tap_threat_filters f) @
     opt_field ''tap_threat_type_filters'' py_strs (tap_threat_type_filters f)"

section \<open>The error taxonomy of the specification\<close>

text \<open>
  The kind of error the specification assigns to an HTTP status between 400 and 599
  (its section 4.1).
\<close>

definition class_of_status :: "int \<Rightarrow> exn_class" where
  "class_of_status st =
     (if st = 400 then ProofpointApiBadRequestError
      else if st = 401 \<or> st = 403 then ProofpointApiAuthError
      else if st = 429 then ProofpointApiRateLimitError
      else ProofpointApiException)"

section \<open>Sample inputs\<close>

text \<open>
  Concrete responses, environments and clients at which the theorems below are
  instantiated. \<open>sample_now\<close> is an instant late in 2025; \<open>sample_client\<close> is the
  client a construction at \<open>sample_now\<close> leaves when the token endpoint answers with
  \<open>token_response_ok\<close>, and \<open>empty_token_client\<close> the one it leaves when the endpoint
  answers with an empty access token.
\<close>

definition ascii_bytes :: "string \<Rightarrow> 8 word list" where
  "ascii_bytes s = map (\<lambda>c. of_nat (of_char c)) s"

definition mk_response :: "int \<Rightarrow> string \<Rightarrow> json_outcome \<Rightarrow> Response" where
  "mk_response st body parsed =
     \<lparr>status_code = st, text' = body, content = ascii_bytes body, json = parsed\<rparr>"

definition token_response_ok :: Response where
  \<open>token_response_ok =
     mk_response 200 ''{"access_token": "tok-1", "expires_in": 3600}''
       (JsonOk (PDict [(''access_token'', PStr ''tok-1''), (''expires_in'', PInt 3600)]))\<close>

definition sample_now :: int where
  "sample_now = 63900000000000000"

definition sample_env :: "int \<Rightarrow> reply \<Rightarrow> reply \<Rightarrow> env" where
  "sample_env t tr ar = \<lparr>clock_ensure = t, token_reply = tr, clock_refresh = t, api_reply = ar\<rparr>"

definition token_response_empty :: Response where
  \<open>token_response_empty =
     mk_response 200 ''{"access_token": "", "expires_in": 3600}''
       (JsonOk (PDict [(''access_token'', PStr ''''), (''expires_in'', PInt 3600)]))\<close>

definition token_response_500 :: Response where
  "token_response_500 =
     mk_response 500 ''Internal Server Error'' (JsonFail True ''Expecting value'')"

definition sample_client :: client where
  "sample_client =
     \<lparr>base_url = default_base_url, token_url = default_token_url,
      client_id = ''id'', client_secret = ''secret'',
      access_token = PStr ''tok-1'', token_expiry = Some (sample_now + 3300 * 1000000),
      wire = [TokenPost default_token_url
                [(''grant_type'', ''client_credentials''), (''client_id'', ''id''),
                 (''client_secret'', ''secret'')]
                [(''Content-Type'', ''application/x-www-form-urlencoded'')]]\<rparr>"

definition tap_filters :: IncidentFilters where
  "tap_filters =
     \<lparr>time_range_filter = None, incident_id_filters = None, other_filters = None,
      priority_filters = None, source_filters = Some [''tap''],
      disposition_filters = None, verdict_filters = None, confidence_filters = None\<rparr>"

definition sample_incident_filters :: IncidentFilters where
  "sample_incident_filters =
     \<lparr>time_range_filter = Some \<lparr>start = ''2024-01-01 00:00:00'', end' = ''2024-01-08 00:00:00''\<rparr>,
      incident_id_filters = None, other_filters = None,
      priority_filters = None, source_filters = Some [''tap''],
      disposition_filters = None, verdict_filters = None, confidence_filters = None\<rparr>"

definition sample_message_filters :: MessageFilters where
  "sample_message_filters =
     \<lparr>time_range_filter = None,
      incident_id_filters = None, other_filters = None,
      priority_filters = Some [''high''], source_filters = None,
      disposition_filters = None, verdict_filters = None, confidence_filters = None,
      message_id_filters = None, recipient_address_filters = None,
      sender_address_filters = None, subject_filters = Some [''invoice''],
      status_filters = None, quarantine_filters = None,
      tap_threat_filters = None, tap_threat_type_filters = None\<rparr>"

definition sample_call :: "int \<Rightarrow> reply \<Rightarrow> reply \<Rightarrow> api_call" where
  "sample_call t tr ar =
     \<lparr>call_env = sample_env t tr ar, call_method = ''GET'',
      call_endpoint = ''/api/v1/tric/workflows'', call_return_json = True,
      call_kwargs = Params []\<rparr>"

definition empty_token_client :: client where
  "empty_token_client = sample_client\<lparr>access_token := PStr ''''\<rparr>"

section \<open>Lemmas on the serializer\<close>

lemma convert_value_py_strs: "convert_value (py_strs xs) = py_strs xs"
  by (induction xs) (simp_all add: py_strs_def)

lemma asdict_factory_Nil: "asdict_factory [] = []"
  by (simp add: asdict_factory_def)

lemma asdict_factory_Cons:
  "asdict_factory ((k, v) # data) =
     (if v = PNone then asdict_factory data else (k, convert_value v) # asdict_factory data)"
  by (simp add: asdict_factory_def)

lemma asdict_factory_append:
  "asdict_factory (xs @ ys) = asdict_factory xs @ asdict_factory ys"
  by (simp add: asdict_factory_def)

lemma py_strs_not_None: "py_strs xs \<noteq> PNone"
  by (simp add: py_strs_def)

lemma asdict_factory_opt_strs:
  "asdict_factory ((k, py_opt_strs x) # data) = opt_field k py_strs x @ asdict_factory data"
  by (cases x) (simp_all add: asdict_factory_Cons convert_value_py_strs py_strs_not_None)

lemma convert_value_time_range:
  "convert_value (PObj (TimeRangeFilter_dict t)) = spec_time_range t"
  by (simp add: TimeRangeFilter_dict_def spec_time_range_def)

lemma asdict_factory_opt_time_range:
  "asdict_factory ((k, py_opt_time_range x) # data) = opt_field k spec_time_range x @ asdict_factory data"
  by (cases x) (simp_all add: asdict_factory_Cons TimeRangeFilter_dict_def spec_time_range_def)

lemma asdict_IncidentFilters:
  "asdict_factory (IncidentFilters_dict f) = spec_incident_filters f"
  by (simp add: IncidentFilters_dict_def spec_incident_filters_def
      asdict_factory_opt_strs asdict_factory_opt_time_range asdict_factory_Nil)

lemma asdict_MessageFilters:
  "asdict_factory (MessageFilters_dict f) = spec_message_filters f"
  by (simp add: MessageFilters_dict_def spec_message_filters_def asdict_factory_append
      asdict_IncidentFilters asdict_factory_opt_strs asdict_factory_Nil)

lemma no_null_py_strs: "no_null_fields (py_strs xs)"
  by (simp add: py_strs_def list_all_iff)

lemma no_null_time_range: "no_null_fields (spec_time_range t)"
  by (simp add: spec_time_range_def)

lemma no_null_opt_field_strs:
  "list_all (\<lambda>(k, v). v \<noteq> PNone \<and> no_null_fields v) (opt_field k py_strs x)"
  by (cases x) (simp_all add: no_null_py_strs py_strs_not_None)

lemma no_null_opt_field_time_range:
  "list_all (\<lambda>(k, v). v \<noteq> PNone \<and> no_null_fields v) (opt_field k spec_time_range x)"
  by (cases x) (simp_all add: no_null_time_range spec_time_range_def)

lemma no_null_spec_incident_filters:
  "list_all (\<lambda>(k, v). v \<noteq> PNone \<and> no_null_fields v) (spec_incident_filters f)"
  by (simp add: spec_incident_filters_def no_null_opt_field_strs no_null_opt_field_time_range)

lemma no_null_spec_message_filters:
  "list_all (\<lambda>(k, v). v \<noteq> PNone \<and> no_null_fields v) (spec_message_filters f)"
  by (simp add: spec_message_filters_def no_null_opt_field_strs no_null_spec_incident_filters)

lemma no_null_sort_params_dicts: "no_null_fields (sort_params_dicts sp)"
  by (cases sp) (simp_all add: list_all_iff SortParam_dict_def)

lemma sort_params_dicts_not_None: "sort_params_dicts sp \<noteq> PNone"
  by (cases sp) simp_all

lemma search_incidents_payload_eq:
  "search_incidents_payload filters start_row end_row sort_params =
     [(''startRow'', PInt start_row), (''endRow'', PInt end_row)] @
     opt_field ''filters'' (\<lambda>f. PDict (spec_incident_filters f)) filters @
     (if truthy (py_opt_sort_params sort_params)
      then [(''sortParams'', sort_params_dicts sort_params)] else [])"
  by (cases filters) (simp_all add: search_incidents_payload_def asdict_IncidentFilters)

lemma search_messages_payload_eq:
  "search_messages_payload filters start_row end_row sort_params =
     [(''startRow'', PInt start_row), (''endRow'', PInt end_row)] @
     opt_field ''filters'' (\<lambda>f. PDict (spec_message_filters f)) filters @
     (if truthy (py_opt_sort_params sort_params)
      then [(''sortParams'', sort_params_dicts sort_params)] else [])"
  by (cases filters) (simp_all add: search_messages_payload_def asdict_MessageFilters)

lemma no_null_search_incidents:
  "no_null_fields (PDict (search_incidents_payload fo sr er sp))"
  by (cases fo)
    (simp_all add: search_incidents_payload_eq no_null_sort_params_dicts
      sort_params_dicts_not_None no_null_spec_incident_filters)

lemma no_null_search_messages:
  "no_null_fields (PDict (search_messages_payload fo sr er sp))"
  by (cases fo)
    (simp_all add: search_messages_payload_eq no_null_sort_params_dicts
      sort_params_dicts_not_None no_null_spec_message_filters)

lemma no_null_get_incident_count:
  "no_null_fields (PDict (get_incident_count_payload f))"
  by (simp add: get_incident_count_payload_def asdict_IncidentFilters no_null_spec_incident_filters)

lemma set_asdict_factory:
  "set (asdict_factory data) = (\<lambda>(k, v). (k, convert_value v)) ` {(k, v) \<in> set data. v \<noteq> PNone}"
  by (auto simp add: asdict_factory_def)

lemma convert_value_eq_None: "convert_value v = PNone \<longleftrightarrow> v = PNone"
  by (cases v) simp_all

lemma convert_value_no_null_fields:
  "value_objects v \<Longrightarrow> no_null_fields (convert_value v)"
proof (induction v rule: convert_value.induct)
  case (1 xs)
  then show ?case by (simp add: list_all_iff)
next
  case (2 fs)
  then show ?case by (auto simp add: list_all_iff convert_value_eq_None)
qed simp_all

section \<open>Lemmas on token management and dispatch\<close>

lemma wire_refresh_token:
  "wire (snd (refresh_token e s)) =
     wire s @ [TokenPost (token_url s)
                 [(''grant_type'', ''client_credentials''),
                  (''client_id'', client_id s),
                  (''client_secret'', client_secret s)]
                 [(''Content-Type'', ''application/x-www-form-urlencoded'')]]"
  by (simp add: refresh_token_def Let_def split: reply.split json_outcome.split sum.split)

lemma token_posts_refresh_token:
  "token_posts (snd (refresh_token e s)) = token_posts s + 1"
  by (simp add: token_posts_def wire_refresh_token)

lemma token_posts_ensure_valid_token:
  "token_posts (snd (ensure_valid_token e s)) =
     token_posts s +
     (if \<not> truthy (access_token s) \<or> token_expiry s = None \<or>
         the (token_expiry s) \<le> clock_ensure e then 1 else 0)"
  by (simp add: ensure_valid_token_def token_posts_refresh_token)

lemma token_posts_request:
  "token_posts (snd (request e method endpoint return_json kw s)) =
     token_posts (snd (ensure_valid_token e s))"
  by (cases "ensure_valid_token e s")
     (simp add: request_def Let_def token_posts_def
        split: sum.split reply.split json_outcome.split)

lemma refresh_token_non_200:
  assumes "token_reply e = Answered r" and "status_code r \<noteq> 200"
  shows "refresh_token e s =
     (Inl (raise_api ProofpointApiAuthError [Lit ''Failed to obtain access token'']
             (Some (status_code r)) (Some (text' r))),
      s\<lparr>wire := wire s @ [TokenPost (token_url s)
                 [(''grant_type'', ''client_credentials''),
                  (''client_id'', client_id s),
                  (''client_secret'', client_secret s)]
                 [(''Content-Type'', ''application/x-www-form-urlencoded'')]]\<rparr>)"
  using assms by (simp add: refresh_token_def Let_def)

lemma refresh_token_failed:
  assumes "token_reply e = Failed d"
  shows "refresh_token e s =
     (Inl (raise_api ProofpointApiException
             [Lit ''Failed to obtain access token: '', Val (PStr d)] None None),
      s\<lparr>wire := wire s @ [TokenPost (token_url s)
                 [(''grant_type'', ''client_credentials''),
                  (''client_id'', client_id s),
                  (''client_secret'', client_secret s)]
                 [(''Content-Type'', ''application/x-www-form-urlencoded'')]]\<rparr>)"
  using assms by (simp add: refresh_token_def Let_def)

lemma refresh_token_ok:
  assumes "token_reply e = Answered r" and "status_code r = 200"
    and "json r = JsonOk (PDict d)" and "map_of d ''access_token'' = Some tok"
    and "py_get (PDict d) ''expires_in'' (PInt 3600) = Inr (PInt n)"
    and "- 999999999 \<le> (n - 300) div 86400" and "(n - 300) div 86400 \<le> 999999999"
    and "0 \<le> clock_refresh e + (n - 300) * 1000000"
    and "clock_refresh e + (n - 300) * 1000000 < datetime_max"
  shows "refresh_token e s =
     (Inr (),
      s\<lparr>wire := wire s @ [TokenPost (token_url s)
                 [(''grant_type'', ''client_credentials''),
                  (''client_id'', client_id s),
                  (''client_secret'', client_secret s)]
                 [(''Content-Type'', ''application/x-www-form-urlencoded'')]],
        access_token := tok,
        token_expiry := Some (clock_refresh e + (n - 300) * 1000000)\<rparr>)"
  using assms
  by (simp add: refresh_token_def Let_def timedelta_seconds_def datetime_add_def)

lemma refresh_token_expiry:
  assumes "fst (refresh_token e s) = Inr ()"
    and "token_reply e = Answered r" and "json r = JsonOk token_data"
    and "py_get token_data ''expires_in'' (PInt 3600) = Inr (PInt n)"
  shows "token_expiry (snd (refresh_token e s)) = Some (clock_refresh e + (n - 300) * 1000000)"
  using assms
  by (auto simp add: refresh_token_def Let_def timedelta_seconds_def datetime_add_def
      split: sum.splits if_splits)


lemma ensure_valid_token_noop:
  assumes "truthy (access_token s)" and "token_expiry s = Some x" and "clock_ensure e < x"
  shows "ensure_valid_token e s = (Inr (), s)"
  using assms by (simp add: ensure_valid_token_def)

lemma request_keeps_token:
  assumes "ensure_valid_token e s = (Inr (), s)"
  shows "access_token (snd (request e method endpoint return_json kw s)) = access_token s \<and>
         token_expiry (snd (request e method endpoint return_json kw s)) = token_expiry s"
  using assms
  by (simp add: request_def Let_def split: reply.split json_outcome.split)

lemma do_call_before_expiry:
  assumes "truthy (access_token s)" and "token_expiry s = Some x"
    and "clock_ensure (call_env c) < x"
  shows "access_token (do_call c s) = access_token s \<and>
         token_expiry (do_call c s) = token_expiry s \<and>
         token_posts (do_call c s) = token_posts s"
proof -
  have noop: "ensure_valid_token (call_env c) s = (Inr (), s)"
    using assms by (rule ensure_valid_token_noop)
  show ?thesis
    using request_keeps_token [OF noop] noop
    by (simp add: do_call_def token_posts_request)
qed

lemma do_calls_before_expiry:
  assumes "truthy (access_token s)" and "token_expiry s = Some x"
    and "\<forall>c \<in> set cs. clock_ensure (call_env c) < x"
  shows "access_token (do_calls cs s) = access_token s \<and>
         token_expiry (do_calls cs s) = token_expiry s \<and>
         token_posts (do_calls cs s) = token_posts s"
  using assms
proof (induction cs arbitrary: s)
  case Nil
  then show ?case by (simp add: do_calls_def)
next
  case (Cons c cs)
  have step: "access_token (do_call c s) = access_token s \<and>
         token_expiry (do_call c s) = token_expiry s \<and>
         token_posts (do_call c s) = token_posts s"
    using Cons.prems by (intro do_call_before_expiry [of s x c]) simp_all
  have "access_token (do_calls cs (do_call c s)) = access_token (do_call c s) \<and>
         token_expiry (do_calls cs (do_call c s)) = token_expiry (do_call c s) \<and>
         token_posts (do_calls cs (do_call c s)) = token_posts (do_call c s)"
    using Cons.prems step by (intro Cons.IH) simp_all
  with step show ?case by (simp add: do_calls_def)
qed

lemma do_call_after_expiry:
  assumes "token_expiry s = Some x" and "x \<le> clock_ensure (call_env c)"
  shows "token_posts (do_call c s) = token_posts s + 1"
  using assms
  by (simp add: do_call_def token_posts_request token_posts_ensure_valid_token)

lemma init_sample_client:
  "init (sample_env sample_now (Answered token_response_ok) (Failed ''''))
     ''id'' ''secret'' default_base_url default_token_url = Inr sample_client"
  by (simp add: init_def refresh_token_def Let_def sample_env_def token_response_ok_def
      mk_response_def new_client_def sample_client_def timedelta_seconds_def datetime_add_def
      datetime_max_def sample_now_def)

lemma ensure_valid_sample_client:
  "ensure_valid_token (sample_env (sample_now + 1000000) tr ar) sample_client = (Inr (), sample_client)"
  by (simp add: ensure_valid_token_def sample_env_def sample_client_def)

lemma handle_error_by_status:
  assumes "json r = JsonFail b d \<or> (\<exists>kvs. json r = JsonOk (PDict kvs))"
  shows "\<exists>args. handle_error r =
           Api (class_of_status (status_code r)) (Some (status_code r)) (Some (text' r)) args"
  using assms
  by (auto simp add: handle_error_def raise_api_def class_of_status_def Let_def
      split: option.split)

lemma request_error_status_raises:
  assumes "fst (ensure_valid_token e s) = Inr ()" and "api_reply e = Answered r"
    and "400 \<le> status_code r \<and> status_code r < 600"
  shows "fst (request e method endpoint return_json kw s) = Inl (handle_error r)"
  using assms
  by (cases "ensure_valid_token e s") (simp add: request_def Let_def)

lemma request_error_status_typed:
  assumes "fst (ensure_valid_token e s) = Inr ()" and "api_reply e = Answered r"
    and "400 \<le> status_code r \<and> status_code r < 600"
    and "json r = JsonFail b d \<or> (\<exists>kvs. json r = JsonOk (PDict kvs))"
  shows "\<exists>args. fst (request e method endpoint return_json kw s) =
           Inl (Api (class_of_status (status_code r)) (Some (status_code r)) (Some (text' r)) args)"
  using request_error_status_raises [OF assms(1,2,3)] handle_error_by_status [OF assms(4)]
  by simp

lemma request_sends:
  assumes "ensure_valid_token e s = (Inr (), s1)"
  shows "wire (snd (request e method endpoint return_json kw s)) =
           wire s1 @
           [SessionRequest method (base_url s1 @ endpoint)
              [(''Authorization'', [Lit ''Bearer '', Val (access_token s1)])] kw]"
  using assms
  by (simp add: request_def Let_def split: reply.split json_outcome.split)

lemma search_incidents_sends:
  assumes "ensure_valid_token e s = (Inr (), s1)"
  shows "wire (snd (search_incidents e fo start_row end_row sort_params s)) =
     wire s1 @
     [SessionRequest ''POST'' (base_url s1 @ ''/api/v1/tric/incidents'')
        [(''Authorization'', [Lit ''Bearer '', Val (access_token s1)])]
        (Json (PDict
           ([(''startRow'', PInt start_row), (''endRow'', PInt end_row)] @
            opt_field ''filters'' (\<lambda>f. PDict (spec_incident_filters f)) fo @
            (if truthy (py_opt_sort_params sort_params)
             then [(''sortParams'', sort_params_dicts sort_params)] else []))))]"
  using request_sends [OF assms]
  by (simp add: search_incidents_def search_incidents_payload_eq del: append.simps)

lemma search_messages_sends:
  assumes "ensure_valid_token e s = (Inr (), s1)"
  shows "wire (snd (search_messages e mo start_row end_row sort_params s)) =
     wire s1 @
     [SessionRequest ''POST'' (base_url s1 @ ''/api/v1/tric/messages'')
        [(''Authorization'', [Lit ''Bearer '', Val (access_token s1)])]
        (Json (PDict
           ([(''startRow'', PInt start_row), (''endRow'', PInt end_row)] @
            opt_field ''filters'' (\<lambda>f. PDict (spec_message_filters f)) mo @
            (if truthy (py_opt_sort_params sort_params)
             then [(''sortParams'', sort_params_dicts sort_params)] else []))))]"
  using request_sends [OF assms]
  by (simp add: search_messages_def search_messages_payload_eq del: append.simps)

lemma get_incident_count_sends:
  assumes "ensure_valid_token e s = (Inr (), s1)"
  shows "wire (snd (get_incident_count e f s)) =
     wire s1 @
     [SessionRequest ''POST'' (base_url s1 @ ''/api/v1/tric/incidents/count'')
        [(''Authorization'', [Lit ''Bearer '', Val (access_token s1)])]
        (Json (PDict [(''filters'', PDict (spec_incident_filters f))]))]"
  using request_sends [OF assms]
  by (simp add: get_incident_count_def get_incident_count_payload_def asdict_IncidentFilters)

lemma upload_message_message_eq:
  "upload_message_message rfc_message_id recipient_addresses sender subject disposition =
     [(''rfcMessageId'', PStr rfc_message_id),
      (''recipient_addresses'', py_strs recipient_addresses)] @
     opt_field ''sender'' PStr (if sender = Some [] then None else sender) @
     opt_field ''subject'' PStr (if subject = Some [] then None else subject) @
     opt_field ''disposition'' PStr (if disposition = Some [] then None else disposition)"
  by (cases sender; cases subject; cases disposition)
     (simp_all add: upload_message_message_def)

lemma upload_message_sends:
  assumes "ensure_valid_token e s = (Inr (), s1)"
  shows "wire (snd (upload_message e incident_id rfc_message_id recipient_addresses
                      sender subject disposition s)) =
     wire s1 @
     [SessionRequest ''POST'' (base_url s1 @ ''/api/v1/tric/incidents/uploadMessage'')
        [(''Authorization'', [Lit ''Bearer '', Val (access_token s1)])]
        (Json (PDict
           [(''incident_id'', PStr incident_id),
            (''message'', PDict
               ([(''rfcMessageId'', PStr rfc_message_id),
                 (''recipient_addresses'', py_strs recipient_addresses)] @
                opt_field ''sender'' PStr (if sender = Some [] then None else sender) @
                opt_field ''subject'' PStr (if subject = Some [] then None else subject) @
                opt_field ''disposition'' PStr
                  (if disposition = Some [] then None else disposition)))]))]"
  using request_sends [OF assms]
  by (simp add: upload_message_def upload_message_payload_def upload_message_message_eq
      del: append.simps)

section \<open>Token lifecycle\<close>

text \<open>
  C1 (as amended). \<open>_ensure_valid_token\<close> posts to the token endpoint exactly when the
  stored access token is absent or empty (false in Python's sense), no expiry is stored,
  or the clock has reached the stored expiry. A refresh that succeeds at the instant
  \<open>clock_refresh e\<close> on a declared (or defaulted) \<open>expires_in\<close> of \<open>n\<close> seconds stores
  that instant plus \<open>n - 300\<close> seconds. Hence, when construction obtains a non-empty
  token with \<open>expires_in = 3600\<close> at \<open>t0\<close>: after any calls made before
  \<open>t0 + 3300 s\<close> the token endpoint has been posted to once, and a following call at
  or after \<open>t0 + 3300 s\<close> makes it twice.
\<close>

theorem token_refresh_schedule:
  assumes held: "truthy tok"
    and reply: "token_reply e0 = Answered r0" "status_code r0 = 200"
      "json r0 = JsonOk (PDict d0)" "map_of d0 ''access_token'' = Some tok"
      "map_of d0 ''expires_in'' = Some (PInt 3600)"
    and range: "0 \<le> clock_refresh e0 + 3300 * 1000000"
      "clock_refresh e0 + 3300 * 1000000 < datetime_max"
    and before: "\<forall>c \<in> set cs. clock_ensure (call_env c) < clock_refresh e0 + 3300 * 1000000"
    and crossing: "clock_refresh e0 + 3300 * 1000000 \<le> clock_ensure (call_env c')"
  shows
    "token_posts (snd (ensure_valid_token e s)) =
       token_posts s +
       (if \<not> truthy (access_token s) \<or> token_expiry s = None \<or>
           the (token_expiry s) \<le> clock_ensure e then 1 else 0) \<and>
     (fst (refresh_token e s) = Inr () \<and> token_reply e = Answered r \<and>
      json r = JsonOk token_data \<and>
      py_get token_data ''expires_in'' (PInt 3600) = Inr (PInt n) \<longrightarrow>
        token_expiry (snd (refresh_token e s)) =
          Some (clock_refresh e + (n - 300) * 1000000)) \<and>
     (\<exists>s0. init e0 cid secret burl turl = Inr s0 \<and>
        access_token s0 = tok \<and>
        token_expiry s0 = Some (clock_refresh e0 + 3300 * 1000000) \<and>
        token_posts s0 = 1 \<and>
        token_posts (do_calls cs s0) = 1 \<and>
        token_posts (do_call c' (do_calls cs s0)) = 2)"
proof -
  let ?x = "clock_refresh e0 + 3300 * 1000000"
  let ?new = "new_client cid secret burl turl"
  let ?s0 = "snd (refresh_token e0 ?new)"
  have ok: "refresh_token e0 ?new =
     (Inr (),
      ?new\<lparr>wire := wire ?new @ [TokenPost (token_url ?new)
                 [(''grant_type'', ''client_credentials''),
                  (''client_id'', client_id ?new),
                  (''client_secret'', client_secret ?new)]
                 [(''Content-Type'', ''application/x-www-form-urlencoded'')]],
        access_token := tok,
        token_expiry := Some (clock_refresh e0 + (3600 - 300) * 1000000)\<rparr>)"
    using reply range
    by (intro refresh_token_ok [of e0 r0 d0 tok 3600]) (simp_all add: datetime_max_def)
  have init: "init e0 cid secret burl turl = Inr ?s0"
    by (simp add: init_def ok)
  have tok0: "access_token ?s0 = tok" and exp0: "token_expiry ?s0 = Some ?x"
    by (simp_all add: ok)
  have posts0: "token_posts ?s0 = 1"
    by (simp add: token_posts_refresh_token) (simp add: token_posts_def new_client_def)
  have inv: "access_token (do_calls cs ?s0) = access_token ?s0 \<and>
         token_expiry (do_calls cs ?s0) = token_expiry ?s0 \<and>
         token_posts (do_calls cs ?s0) = token_posts ?s0"
    using held tok0 exp0 before by (intro do_calls_before_expiry [of ?s0 ?x cs]) simp_all
  have after: "token_posts (do_call c' (do_calls cs ?s0)) = token_posts (do_calls cs ?s0) + 1"
    using inv exp0 crossing by (intro do_call_after_expiry [of _ ?x]) simp_all
  have part3: "\<exists>s0. init e0 cid secret burl turl = Inr s0 \<and>
        access_token s0 = tok \<and>
        token_expiry s0 = Some ?x \<and>
        token_posts s0 = 1 \<and>
        token_posts (do_calls cs s0) = 1 \<and>
        token_posts (do_call c' (do_calls cs s0)) = 2"
    using init tok0 exp0 posts0 inv after by (intro exI [of _ ?s0]) simp
  have part2: "fst (refresh_token e s) = Inr () \<and> token_reply e = Answered r \<and>
      json r = JsonOk token_data \<and>
      py_get token_data ''expires_in'' (PInt 3600) = Inr (PInt n) \<longrightarrow>
        token_expiry (snd (refresh_token e s)) =
          Some (clock_refresh e + (n - 300) * 1000000)"
    using refresh_token_expiry [of e s r token_data n] by blast
  show ?thesis
    using token_posts_ensure_valid_token [of e s] part2 part3 by blast
qed

text \<open>
  The schedule at \<open>sample_client\<close>: two calls before the expiry, ten seconds and one
  microsecond short of 3300 seconds after the token was obtained, then one call at the
  expiry, whose refresh stores an expiry 3300 seconds later still.
\<close>

theorem token_refresh_schedule_witness:
  "init (sample_env sample_now (Answered token_response_ok) (Failed ''''))
     ''id'' ''secret'' default_base_url default_token_url = Inr sample_client \<and>
   token_expiry sample_client = Some (sample_now + 3300 * 1000000) \<and>
   token_posts sample_client = 1 \<and>
   token_posts
     (do_calls
        [sample_call (sample_now + 10 * 1000000) (Failed '''')
           (Answered (mk_response 200 '''' (JsonFail True ''''))),
         sample_call (sample_now + 3300 * 1000000 - 1) (Failed '''') (Failed ''Read timed out'')]
        sample_client) = 1 \<and>
   token_posts
     (do_call
        (sample_call (sample_now + 3300 * 1000000) (Answered token_response_ok)
           (Failed ''Read timed out''))
        (do_calls
           [sample_call (sample_now + 10 * 1000000) (Failed '''')
              (Answered (mk_response 200 '''' (JsonFail True ''''))),
            sample_call (sample_now + 3300 * 1000000 - 1) (Failed '''') (Failed ''Read timed out'')]
           sample_client)) = 2 \<and>
   token_posts (snd (ensure_valid_token
      (sample_env (sample_now + 3300 * 1000000) (Answered token_response_ok) (Failed ''''))
      sample_client)) = 2 \<and>
   token_expiry (snd (refresh_token
      (sample_env (sample_now + 3300 * 1000000) (Answered token_response_ok) (Failed ''''))
      sample_client)) = Some (sample_now + 6600 * 1000000)"
proof -
  let ?ea = "sample_env sample_now (Answered token_response_ok) (Failed '''')"
  let ?ec = "sample_env (sample_now + 3300 * 1000000) (Answered token_response_ok) (Failed '''')"
  let ?cs = "[sample_call (sample_now + 10 * 1000000) (Failed '''')
           (Answered (mk_response 200 '''' (JsonFail True ''''))),
         sample_call (sample_now + 3300 * 1000000 - 1) (Failed '''') (Failed ''Read timed out'')]"
  let ?c = "sample_call (sample_now + 3300 * 1000000) (Answered token_response_ok)
           (Failed ''Read timed out'')"
  let ?dict = "[(''access_token'', PStr ''tok-1''), (''expires_in'', PInt 3600)]"
  have held: "truthy (PStr ''tok-1'')" by simp
  have r1: "token_reply ?ea = Answered token_response_ok" by (simp add: sample_env_def)
  have r2: "status_code token_response_ok = 200"
    by (simp add: token_response_ok_def mk_response_def)
  have r3: "json token_response_ok = JsonOk (PDict ?dict)"
    by (simp add: token_response_ok_def mk_response_def)
  have r4: "map_of ?dict ''access_token'' = Some (PStr ''tok-1'')" by simp
  have r5: "map_of ?dict ''expires_in'' = Some (PInt 3600)" by simp
  have g1: "0 \<le> clock_refresh ?ea + 3300 * 1000000"
    by (simp add: sample_env_def sample_now_def)
  have g2: "clock_refresh ?ea + 3300 * 1000000 < datetime_max"
    by (simp add: sample_env_def sample_now_def datetime_max_def)
  have before: "\<forall>c \<in> set ?cs. clock_ensure (call_env c) < clock_refresh ?ea + 3300 * 1000000"
    by (simp add: sample_call_def sample_env_def)
  have crossing: "clock_refresh ?ea + 3300 * 1000000 \<le> clock_ensure (call_env ?c)"
    by (simp add: sample_call_def sample_env_def)
  have b1: "fst (refresh_token ?ec sample_client) = Inr ()"
    by (simp add: refresh_token_def Let_def sample_env_def token_response_ok_def
      mk_response_def timedelta_seconds_def datetime_add_def datetime_max_def sample_now_def)
  have b2: "token_reply ?ec = Answered token_response_ok" by (simp add: sample_env_def)
  have b4: "py_get (PDict ?dict) ''expires_in'' (PInt 3600) = Inr (PInt 3600)" by simp
  note sched = token_refresh_schedule [OF held r1 r2 r3 r4 r5 g1 g2 before crossing,
      of ?ec sample_client token_response_ok "PDict ?dict" 3600
         "''id''" "''secret''" default_base_url default_token_url]
  from sched obtain s0 where
    s0: "init ?ea ''id'' ''secret'' default_base_url default_token_url = Inr s0"
    and rest: "token_expiry s0 = Some (clock_refresh ?ea + 3300 * 1000000)"
      "token_posts s0 = 1" "token_posts (do_calls ?cs s0) = 1"
      "token_posts (do_call ?c (do_calls ?cs s0)) = 2"
    by blast
  have eq: "s0 = sample_client"
    using s0 by (simp add: init_sample_client)
  have clk: "clock_refresh ?ea = sample_now" "clock_refresh ?ec = sample_now + 3300 * 1000000"
    "clock_ensure ?ec = sample_now + 3300 * 1000000"
    by (simp_all add: sample_env_def)
  have posts: "token_posts sample_client = 1"
    using rest(2) by (simp add: eq)
  have cond: "the (token_expiry sample_client) \<le> clock_ensure ?ec"
    by (simp add: sample_client_def sample_env_def)
  from sched have A: "token_posts (snd (ensure_valid_token ?ec sample_client)) =
       token_posts sample_client +
       (if \<not> truthy (access_token sample_client) \<or> token_expiry sample_client = None \<or>
           the (token_expiry sample_client) \<le> clock_ensure ?ec then 1 else 0)"
    by blast
  have a: "token_posts (snd (ensure_valid_token ?ec sample_client)) = 2"
    using A cond posts by simp
  from sched b1 b2 r3 b4
  have B: "token_expiry (snd (refresh_token ?ec sample_client)) =
          Some (clock_refresh ?ec + (3600 - 300) * 1000000)"
    by blast
  have b: "token_expiry (snd (refresh_token ?ec sample_client)) = Some (sample_now + 6600 * 1000000)"
    using B by (simp add: sample_env_def)
  show ?thesis
    using rest init_sample_client a b unfolding eq clk by simp
qed

text \<open>
  C1 as stated fails when the token endpoint answers 200 with an empty access token: the
  refresh succeeds and stores the expiry \<open>t0 + 3300 s\<close>, yet a call one second later,
  well before that expiry, posts to the token endpoint again.
\<close>

theorem empty_token_refreshed_before_expiry:
  "init (sample_env sample_now (Answered token_response_empty) (Failed ''''))
     ''id'' ''secret'' default_base_url default_token_url = Inr empty_token_client \<and>
   token_expiry empty_token_client = Some (sample_now + 3300 * 1000000) \<and>
   token_posts empty_token_client = 1 \<and>
   clock_ensure (sample_env (sample_now + 1000000) (Answered token_response_empty) (Failed ''''))
     < sample_now + 3300 * 1000000 \<and>
   token_posts (snd (ensure_valid_token
      (sample_env (sample_now + 1000000) (Answered token_response_empty) (Failed ''''))
      empty_token_client)) = 2"
proof -
  have i: "init (sample_env sample_now (Answered token_response_empty) (Failed ''''))
     ''id'' ''secret'' default_base_url default_token_url = Inr empty_token_client"
    by (simp add: init_def refresh_token_def Let_def sample_env_def token_response_empty_def
      mk_response_def new_client_def sample_client_def empty_token_client_def
      timedelta_seconds_def datetime_add_def datetime_max_def sample_now_def)
  have p: "token_posts empty_token_client = 1"
    by (simp add: token_posts_def empty_token_client_def sample_client_def)
  have q: "token_posts (snd (ensure_valid_token
      (sample_env (sample_now + 1000000) (Answered token_response_empty) (Failed ''''))
      empty_token_client)) = 2"
    by (simp add: token_posts_ensure_valid_token p) (simp add: empty_token_client_def)
  show ?thesis
    using i p q by (simp add: sample_env_def) (simp add: empty_token_client_def sample_client_def)
qed

text \<open>
  C4. When the token endpoint answers with a status other than 200, \<open>_refresh_token\<close>
  raises a \<open>ProofpointApiAuthError\<close> whose attributes are that status and the text of
  the response; the stored token and expiry are as before. Construction fails with that
  error and leaves both absent, so that an \<open>_ensure_valid_token\<close> on that state posts
  again; and when an \<open>_ensure_valid_token\<close> refreshed and failed this way, a later one
  (the clock not having gone back) refreshes again.
\<close>

theorem refresh_non_200_leaves_state:
  assumes "token_reply e = Answered r" and "status_code r \<noteq> 200"
  shows
    "fst (refresh_token e s) =
       Inl (raise_api ProofpointApiAuthError [Lit ''Failed to obtain access token'']
              (Some (status_code r)) (Some (text' r))) \<and>
     raise_api ProofpointApiAuthError [Lit ''Failed to obtain access token'']
              (Some (status_code r)) (Some (text' r)) =
       Api ProofpointApiAuthError (Some (status_code r)) (Some (text' r))
         ([Lit ''['', Val (PInt (status_code r)), Lit ''] '', Lit ''Failed to obtain access token''] @
          (if text' r = [] then [] else [Lit (CHR 0x0A # ''Response: ''), Val (PStr (text' r))])) \<and>
     access_token (snd (refresh_token e s)) = access_token s \<and>
     token_expiry (snd (refresh_token e s)) = token_expiry s \<and>
     init e cid secret burl turl =
       Inl (raise_api ProofpointApiAuthError [Lit ''Failed to obtain access token'']
              (Some (status_code r)) (Some (text' r))) \<and>
     access_token (snd (refresh_token e (new_client cid secret burl turl))) = PNone \<and>
     token_expiry (snd (refresh_token e (new_client cid secret burl turl))) = None \<and>
     token_posts (snd (ensure_valid_token e'
        (snd (refresh_token e (new_client cid secret burl turl))))) = 2 \<and>
     (token_posts (snd (ensure_valid_token e s)) = token_posts s + 1 \<and>
      clock_ensure e \<le> clock_ensure e' \<longrightarrow>
        token_posts (snd (ensure_valid_token e' (snd (ensure_valid_token e s)))) =
          token_posts s + 2)"
proof -
  let ?err = "raise_api ProofpointApiAuthError [Lit ''Failed to obtain access token'']
              (Some (status_code r)) (Some (text' r))"
  let ?new = "new_client cid secret burl turl"
  note fail = refresh_token_non_200 [OF assms]
  have p1: "fst (refresh_token e s) = Inl ?err"
    and p3: "access_token (snd (refresh_token e s)) = access_token s"
    and p4: "token_expiry (snd (refresh_token e s)) = token_expiry s"
    by (simp_all add: fail)
  have p2: "?err = Api ProofpointApiAuthError (Some (status_code r)) (Some (text' r))
         ([Lit ''['', Val (PInt (status_code r)), Lit ''] '', Lit ''Failed to obtain access token''] @
          (if text' r = [] then [] else [Lit (CHR 0x0A # ''Response: ''), Val (PStr (text' r))]))"
    by (simp add: raise_api_def Let_def)
  have p5: "init e cid secret burl turl = Inl ?err"
    by (simp add: init_def fail)
  have p6: "access_token (snd (refresh_token e ?new)) = PNone"
    and p7: "token_expiry (snd (refresh_token e ?new)) = None"
    by (simp_all add: fail new_client_def)
  have p8: "token_posts (snd (ensure_valid_token e' (snd (refresh_token e ?new)))) = 2"
    using p6 p7
    by (simp add: token_posts_ensure_valid_token token_posts_refresh_token)
       (simp add: token_posts_def new_client_def)
  have p9: "token_posts (snd (ensure_valid_token e s)) = token_posts s + 1 \<and>
      clock_ensure e \<le> clock_ensure e' \<longrightarrow>
        token_posts (snd (ensure_valid_token e' (snd (ensure_valid_token e s)))) =
          token_posts s + 2"
  proof (cases "\<not> truthy (access_token s) \<or> token_expiry s = None \<or>
           the (token_expiry s) \<le> clock_ensure e")
    case True
    then have ev: "ensure_valid_token e s = refresh_token e s"
      by (auto simp add: ensure_valid_token_def)
    show ?thesis
      using True
      by (auto simp add: ev token_posts_ensure_valid_token p3 p4 token_posts_refresh_token)
  next
    case False
    then have "token_posts (snd (ensure_valid_token e s)) = token_posts s"
      by (simp add: token_posts_ensure_valid_token)
    then show ?thesis by simp
  qed
  show ?thesis using p1 p2 p3 p4 p5 p6 p7 p8 p9 by blast
qed

theorem refresh_non_200_leaves_state_witness:
  "init (sample_env sample_now (Answered token_response_500) (Failed ''''))
     ''id'' ''secret'' default_base_url default_token_url =
     Inl (Api ProofpointApiAuthError (Some 500) (Some ''Internal Server Error'')
            [Lit ''['', Val (PInt 500), Lit ''] '', Lit ''Failed to obtain access token'',
             Lit (CHR 0x0A # ''Response: ''), Val (PStr ''Internal Server Error'')]) \<and>
   access_token (snd (refresh_token
       (sample_env sample_now (Answered token_response_500) (Failed ''''))
       (new_client ''id'' ''secret'' default_base_url default_token_url))) = PNone \<and>
   token_posts (snd (ensure_valid_token
       (sample_env (sample_now + 1000000) (Answered token_response_500) (Failed ''''))
       (snd (refresh_token
          (sample_env sample_now (Answered token_response_500) (Failed ''''))
          (new_client ''id'' ''secret'' default_base_url default_token_url))))) = 2 \<and>
   access_token (snd (refresh_token
       (sample_env (sample_now + 3300 * 1000000) (Answered token_response_500) (Failed ''''))
       sample_client)) = PStr ''tok-1'' \<and>
   token_expiry (snd (refresh_token
       (sample_env (sample_now + 3300 * 1000000) (Answered token_response_500) (Failed ''''))
       sample_client)) = Some (sample_now + 3300 * 1000000) \<and>
   token_posts (snd (ensure_valid_token
       (sample_env (sample_now + 3301 * 1000000) (Answered token_response_500) (Failed ''''))
       (snd (ensure_valid_token
          (sample_env (sample_now + 3300 * 1000000) (Answered token_response_500) (Failed ''''))
          sample_client)))) = 3"
proof -
  let ?ea = "sample_env sample_now (Answered token_response_500) (Failed '''')"
  let ?eb = "sample_env (sample_now + 1000000) (Answered token_response_500) (Failed '''')"
  let ?ec = "sample_env (sample_now + 3300 * 1000000) (Answered token_response_500) (Failed '''')"
  let ?ed = "sample_env (sample_now + 3301 * 1000000) (Answered token_response_500) (Failed '''')"
  have h0: "token_reply ?ea = Answered token_response_500"
    and h1: "token_reply ?ec = Answered token_response_500"
    by (simp_all add: sample_env_def)
  have h2: "status_code token_response_500 \<noteq> 200"
    by (simp add: token_response_500_def mk_response_def)
  have posts: "token_posts sample_client = 1"
    by (simp add: token_posts_def sample_client_def)
  have pre: "token_posts (snd (ensure_valid_token ?ec sample_client)) = token_posts sample_client + 1"
    by (simp add: token_posts_ensure_valid_token) (simp add: sample_env_def sample_client_def)
  have mono: "clock_ensure ?ec \<le> clock_ensure ?ed"
    by (simp add: sample_env_def)
  note first = refresh_non_200_leaves_state [OF h0 h2,
        of sample_client "''id''" "''secret''" default_base_url default_token_url ?eb]
  note later = refresh_non_200_leaves_state [OF h1 h2,
        of sample_client "''id''" "''secret''" default_base_url default_token_url ?ed]
  from first have c1: "init ?ea ''id'' ''secret'' default_base_url default_token_url =
       Inl (raise_api ProofpointApiAuthError [Lit ''Failed to obtain access token'']
              (Some (status_code token_response_500)) (Some (text' token_response_500)))"
    and c2: "access_token (snd (refresh_token ?ea
        (new_client ''id'' ''secret'' default_base_url default_token_url))) = PNone"
    and c3: "token_posts (snd (ensure_valid_token ?eb (snd (refresh_token ?ea
        (new_client ''id'' ''secret'' default_base_url default_token_url))))) = 2"
    by blast+
  from later have c4: "access_token (snd (refresh_token ?ec sample_client)) =
       access_token sample_client"
    and c5: "token_expiry (snd (refresh_token ?ec sample_client)) = token_expiry sample_client"
    by blast+
  from later pre mono
  have c6: "token_posts (snd (ensure_valid_token ?ed (snd (ensure_valid_token ?ec sample_client)))) =
          token_posts sample_client + 2"
    by blast
  have err: "raise_api ProofpointApiAuthError [Lit ''Failed to obtain access token'']
              (Some (status_code token_response_500)) (Some (text' token_response_500)) =
     Api ProofpointApiAuthError (Some 500) (Some ''Internal Server Error'')
            [Lit ''['', Val (PInt 500), Lit ''] '', Lit ''Failed to obtain access token'',
             Lit (CHR 0x0A # ''Response: ''), Val (PStr ''Internal Server Error'')]"
    by (simp add: raise_api_def token_response_500_def mk_response_def)
  have tok: "access_token sample_client = PStr ''tok-1''"
    and exp: "token_expiry sample_client = Some (sample_now + 3300 * 1000000)"
    by (simp_all add: sample_client_def)
  show ?thesis
    using c1 c2 c3 c4 c5 c6 by (simp add: err tok exp posts)
qed

text \<open>
  C3 (as amended). A response of the token endpoint with a status other than 200 is
  raised as \<open>ProofpointApiAuthError\<close>; a transport failure reaching the token endpoint
  is raised as the base \<open>ProofpointApiException\<close>, with no status and no response text,
  its message being \<open>Failed to obtain access token: \<close> followed by the description of
  the transport failure. The latter is not an instance of \<open>ProofpointApiAuthError\<close>.
\<close>

theorem refresh_failure_kinds:
  "(token_reply e = Answered r \<and> status_code r \<noteq> 200 \<longrightarrow>
      fst (refresh_token e s) =
        Inl (raise_api ProofpointApiAuthError [Lit ''Failed to obtain access token'']
               (Some (status_code r)) (Some (text' r))) \<and>
      isinstance
        (raise_api ProofpointApiAuthError [Lit ''Failed to obtain access token'']
               (Some (status_code r)) (Some (text' r)))
        ProofpointApiAuthError) \<and>
   (token_reply e = Failed d \<longrightarrow>
      fst (refresh_token e s) =
        Inl (raise_api ProofpointApiException
               [Lit ''Failed to obtain access token: '', Val (PStr d)] None None) \<and>
      \<not> isinstance
        (raise_api ProofpointApiException
               [Lit ''Failed to obtain access token: '', Val (PStr d)] None None)
        ProofpointApiAuthError \<and>
      isinstance
        (raise_api ProofpointApiException
               [Lit ''Failed to obtain access token: '', Val (PStr d)] None None)
        ProofpointApiException)"
  by (auto simp add: refresh_token_non_200 refresh_token_failed raise_api_def Let_def)

theorem refresh_failure_kinds_witness:
  "fst (refresh_token (sample_env sample_now (Answered token_response_500) (Failed ''''))
          sample_client) =
     Inl (Api ProofpointApiAuthError (Some 500) (Some ''Internal Server Error'')
            [Lit ''['', Val (PInt 500), Lit ''] '', Lit ''Failed to obtain access token'',
             Lit (CHR 0x0A # ''Response: ''), Val (PStr ''Internal Server Error'')]) \<and>
   fst (refresh_token (sample_env sample_now (Failed ''Name or service not known'') (Failed ''''))
          sample_client) =
     Inl (Api ProofpointApiException None None
            [Lit ''['', Val PNone, Lit ''] '', Lit ''Failed to obtain access token: '',
             Val (PStr ''Name or service not known'')])"
  using refresh_failure_kinds [of "sample_env sample_now (Answered token_response_500) (Failed '''')"
      token_response_500 sample_client "''x''"]
    refresh_failure_kinds [of "sample_env sample_now (Failed ''Name or service not known'') (Failed '''')"
      token_response_500 sample_client "''Name or service not known''"]
  by (simp add: sample_env_def token_response_500_def mk_response_def raise_api_def)

text \<open>
  C3 as stated fails: a refused connection to the token endpoint surfaces as the base
  \<open>ProofpointApiException\<close>, which is not a \<open>ProofpointApiAuthError\<close>.
\<close>

theorem refresh_transport_failure_is_generic:
  "fst (refresh_token (sample_env sample_now (Failed ''Connection refused'') (Failed ''''))
          (new_client ''id'' ''secret'' default_base_url default_token_url)) =
     Inl (Api ProofpointApiException None None
            [Lit ''['', Val PNone, Lit ''] '', Lit ''Failed to obtain access token: '',
             Val (PStr ''Connection refused'')]) \<and>
   \<not> isinstance
        (Api ProofpointApiException None None
            [Lit ''['', Val PNone, Lit ''] '', Lit ''Failed to obtain access token: '',
             Val (PStr ''Connection refused'')])
        ProofpointApiAuthError"
  by (simp add: refresh_token_def Let_def sample_env_def raise_api_def)

section \<open>Dispatch\<close>

text \<open>
  C2 fails on the code at a response whose status is 500 and whose body is the JSON
  document \<open>[]\<close>: \<open>_handle_error\<close> calls \<open>get\<close> on the decoded list, and the
  \<open>AttributeError\<close> that raises is caught neither by \<open>_handle_error\<close> nor by
  \<open>_request\<close>. Lemma \<open>handle_error_by_status\<close> shows the mapping by status to hold
  whenever the body is not JSON or is a JSON object.
\<close>

theorem request_error_status_non_object_body:
  "fst (request
          (sample_env (sample_now + 1000000) (Failed '''')
             (Answered (mk_response 500 ''[]'' (JsonOk (PList [])))))
          ''GET'' ''/api/v1/tric/workflows'' True (Params []) sample_client)
     = Inl AttributeError"
  by (simp add: request_def ensure_valid_sample_client Let_def)
     (simp add: sample_env_def mk_response_def handle_error_def)

text \<open>
  C7. A request dispatched with JSON decoding that receives a response of a status
  outside 400..599 and with an empty body returns the empty dict.
\<close>

theorem request_empty_body_is_empty_mapping:
  assumes "fst (ensure_valid_token e s) = Inr ()" and "api_reply e = Answered r"
    and "\<not> (400 \<le> status_code r \<and> status_code r < 600)" and "text' r = []"
  shows "fst (request e method endpoint True kw s) = Inr (PDict [])"
  using assms
  by (cases "ensure_valid_token e s") (simp add: request_def Let_def)

theorem request_empty_body_is_empty_mapping_witness:
  "fst (request
          (sample_env (sample_now + 1000000) (Failed '''')
             (Answered (mk_response 200 '''' (JsonFail True ''Expecting value''))))
          ''GET'' ''/api/v1/tric/workflows'' True (Params []) sample_client) = Inr (PDict [])"
proof -
  let ?r = "mk_response 200 '''' (JsonFail True ''Expecting value'')"
  let ?e = "sample_env (sample_now + 1000000) (Failed '''') (Answered ?r)"
  have h1: "fst (ensure_valid_token ?e sample_client) = Inr ()"
    by (simp add: ensure_valid_sample_client)
  have h2: "api_reply ?e = Answered ?r"
    by (simp add: sample_env_def)
  have h3: "\<not> (400 \<le> status_code ?r \<and> status_code ?r < 600)"
    by (simp add: mk_response_def)
  have h4: "text' ?r = []"
    by (simp add: mk_response_def)
  show ?thesis
    by (rule request_empty_body_is_empty_mapping [OF h1 h2 h3 h4])
qed

text \<open>
  C8. \<open>download_message_mime\<close>, on a response of a status outside 400..599, returns the
  bytes of the response's content as they are, whatever the message id and the body.
\<close>

theorem download_message_mime_raw_bytes:
  assumes "fst (ensure_valid_token e s) = Inr ()" and "api_reply e = Answered r"
    and "\<not> (400 \<le> status_code r \<and> status_code r < 600)"
  shows "fst (download_message_mime e message_id s) = Inr (PBytes (content r))"
  using assms
  by (cases "ensure_valid_token e s") (simp add: download_message_mime_def request_def Let_def)

theorem download_message_mime_raw_bytes_witness:
  "fst (download_message_mime
          (sample_env (sample_now + 1000000) (Failed '''')
             (Answered \<lparr>status_code = 200, text' = ''{}'', content = [0x7B, 0x7D, 0xFF, 0x00],
                        json = JsonOk (PDict [])\<rparr>))
          ''m-1'' sample_client) = Inr (PBytes [0x7B, 0x7D, 0xFF, 0x00])"
proof -
  let ?r = "\<lparr>status_code = 200, text' = ''{}'', content = [0x7B, 0x7D, 0xFF, 0x00 :: 8 word],
                        json = JsonOk (PDict [])\<rparr>"
  let ?e = "sample_env (sample_now + 1000000) (Failed '''') (Answered ?r)"
  have h1: "fst (ensure_valid_token ?e sample_client) = Inr ()"
    by (simp add: ensure_valid_sample_client)
  have h2: "api_reply ?e = Answered ?r"
    by (simp add: sample_env_def)
  have h3: "\<not> (400 \<le> status_code ?r \<and> status_code ?r < 600)"
    by simp
  show ?thesis
    using download_message_mime_raw_bytes [OF h1 h2 h3, of "''m-1''"] by simp
qed

section \<open>Payloads\<close>

text \<open>
  C5. The filters object that \<open>search_incidents\<close>, \<open>search_messages\<close> and
  \<open>get_incident_count\<close> send is the one the specification words: each field that is
  present under its own name, in declaration order, and no key for an absent one. No
  dict of the whole payload, at any depth, maps a key to \<open>None\<close>. Once the token is
  valid, each of the three methods issues one POST whose JSON body is that payload.
\<close>

theorem filters_serialized_without_absent_fields:
  "asdict_factory (IncidentFilters_dict f) = spec_incident_filters f \<and>
   asdict_factory (MessageFilters_dict m) = spec_message_filters m \<and>
   search_incidents_payload fo start_row end_row sort_params =
     [(''startRow'', PInt start_row), (''endRow'', PInt end_row)] @
     opt_field ''filters'' (\<lambda>f. PDict (spec_incident_filters f)) fo @
     (if truthy (py_opt_sort_params sort_params)
      then [(''sortParams'', sort_params_dicts sort_params)] else []) \<and>
   search_messages_payload mo start_row end_row sort_params =
     [(''startRow'', PInt start_row), (''endRow'', PInt end_row)] @
     opt_field ''filters'' (\<lambda>f. PDict (spec_message_filters f)) mo @
     (if truthy (py_opt_sort_params sort_params)
      then [(''sortParams'', sort_params_dicts sort_params)] else []) \<and>
   get_incident_count_payload f = [(''filters'', PDict (spec_incident_filters f))] \<and>
   no_null_fields (PDict (search_incidents_payload fo start_row end_row sort_params)) \<and>
   no_null_fields (PDict (search_messages_payload mo start_row end_row sort_params)) \<and>
   no_null_fields (PDict (get_incident_count_payload f)) \<and>
   (ensure_valid_token e s = (Inr (), s1) \<longrightarrow>
      wire (snd (search_incidents e fo start_row end_row sort_params s)) =
        wire s1 @
        [SessionRequest ''POST'' (base_url s1 @ ''/api/v1/tric/incidents'')
           [(''Authorization'', [Lit ''Bearer '', Val (access_token s1)])]
           (Json (PDict
              ([(''startRow'', PInt start_row), (''endRow'', PInt end_row)] @
               opt_field ''filters'' (\<lambda>f. PDict (spec_incident_filters f)) fo @
               (if truthy (py_opt_sort_params sort_params)
                then [(''sortParams'', sort_params_dicts sort_params)] else []))))] \<and>
      wire (snd (search_messages e mo start_row end_row sort_params s)) =
        wire s1 @
        [SessionRequest ''POST'' (base_url s1 @ ''/api/v1/tric/messages'')
           [(''Authorization'', [Lit ''Bearer '', Val (access_token s1)])]
           (Json (PDict
              ([(''startRow'', PInt start_row), (''endRow'', PInt end_row)] @
               opt_field ''filters'' (\<lambda>f. PDict (spec_message_filters f)) mo @
               (if truthy (py_opt_sort_params sort_params)
                then [(''sortParams'', sort_params_dicts sort_params)] else []))))] \<and>
      wire (snd (get_incident_count e f s)) =
        wire s1 @
        [SessionRequest ''POST'' (base_url s1 @ ''/api/v1/tric/incidents/count'')
           [(''Authorization'', [Lit ''Bearer '', Val (access_token s1)])]
           (Json (PDict [(''filters'', PDict (spec_incident_filters f))]))]) \<and>
   no_null_fields (PDict
      ([(''startRow'', PInt start_row), (''endRow'', PInt end_row)] @
       opt_field ''filters'' (\<lambda>f. PDict (spec_incident_filters f)) fo @
       (if truthy (py_opt_sort_params sort_params)
        then [(''sortParams'', sort_params_dicts sort_params)] else []))) \<and>
   no_null_fields (PDict
      ([(''startRow'', PInt start_row), (''endRow'', PInt end_row)] @
       opt_field ''filters'' (\<lambda>f. PDict (spec_message_filters f)) mo @
       (if truthy (py_opt_sort_params sort_params)
        then [(''sortParams'', sort_params_dicts sort_params)] else []))) \<and>
   no_null_fields (PDict [(''filters'', PDict (spec_incident_filters f))])"
proof -
  note inc = search_incidents_payload_eq [of fo start_row end_row sort_params]
  note msg = search_messages_payload_eq [of mo start_row end_row sort_params]
  have cnt: "get_incident_count_payload f = [(''filters'', PDict (spec_incident_filters f))]"
    by (simp add: get_incident_count_payload_def asdict_IncidentFilters)
  note n1 = no_null_search_incidents [of fo start_row end_row sort_params]
  note n2 = no_null_search_messages [of mo start_row end_row sort_params]
  note n3 = no_null_get_incident_count [of f]
  have sent: "ensure_valid_token e s = (Inr (), s1) \<longrightarrow>
      wire (snd (search_incidents e fo start_row end_row sort_params s)) =
        wire s1 @
        [SessionRequest ''POST'' (base_url s1 @ ''/api/v1/tric/incidents'')
           [(''Authorization'', [Lit ''Bearer '', Val (access_token s1)])]
           (Json (PDict
              ([(''startRow'', PInt start_row), (''endRow'', PInt end_row)] @
               opt_field ''filters'' (\<lambda>f. PDict (spec_incident_filters f)) fo @
               (if truthy (py_opt_sort_params sort_params)
                then [(''sortParams'', sort_params_dicts sort_params)] else []))))] \<and>
      wire (snd (search_messages e mo start_row end_row sort_params s)) =
        wire s1 @
        [SessionRequest ''POST'' (base_url s1 @ ''/api/v1/tric/messages'')
           [(''Authorization'', [Lit ''Bearer '', Val (access_token s1)])]
           (Json (PDict
              ([(''startRow'', PInt start_row), (''endRow'', PInt end_row)] @
               opt_field ''filters'' (\<lambda>f. PDict (spec_message_filters f)) mo @
               (if truthy (py_opt_sort_params sort_params)
                then [(''sortParams'', sort_params_dicts sort_params)] else []))))] \<and>
      wire (snd (get_incident_count e f s)) =
        wire s1 @
        [SessionRequest ''POST'' (base_url s1 @ ''/api/v1/tric/incidents/count'')
           [(''Authorization'', [Lit ''Bearer '', Val (access_token s1)])]
           (Json (PDict [(''filters'', PDict (spec_incident_filters f))]))]"
    using search_incidents_sends [of e s s1 fo start_row end_row sort_params]
      search_messages_sends [of e s s1 mo start_row end_row sort_params]
      get_incident_count_sends [of e s s1 f]
    by blast
  show ?thesis
    using asdict_IncidentFilters [of f] asdict_MessageFilters [of m]
      inc msg cnt n1 [unfolded inc] n2 [unfolded msg] n3 [unfolded cnt] n1 n2 n3 sent
    by blast
qed

theorem filters_serialized_without_absent_fields_witness:
  "wire (snd (search_incidents
                (sample_env (sample_now + 1000000) (Failed '''')
                   (Answered (mk_response 200 '''' (JsonFail True ''Expecting value''))))
                (Some sample_incident_filters) 0 5 None sample_client)) =
     wire sample_client @
     [SessionRequest ''POST'' ''https://threatprotection-api.proofpoint.com/api/v1/tric/incidents''
        [(''Authorization'', [Lit ''Bearer '', Val (PStr ''tok-1'')])]
        (Json (PDict
           [(''startRow'', PInt 0), (''endRow'', PInt 5),
            (''filters'', PDict
               [(''time_range_filter'',
                 PDict [(''start'', PStr ''2024-01-01 00:00:00''),
                        (''end'', PStr ''2024-01-08 00:00:00'')]),
                (''source_filters'', PList [PStr ''tap''])])]))] \<and>
   wire (snd (search_messages
                (sample_env (sample_now + 1000000) (Failed '''')
                   (Answered (mk_response 200 '''' (JsonFail True ''Expecting value''))))
                (Some sample_message_filters) 0 5 None sample_client)) =
     wire sample_client @
     [SessionRequest ''POST'' ''https://threatprotection-api.proofpoint.com/api/v1/tric/messages''
        [(''Authorization'', [Lit ''Bearer '', Val (PStr ''tok-1'')])]
        (Json (PDict
           [(''startRow'', PInt 0), (''endRow'', PInt 5),
            (''filters'', PDict
               [(''priority_filters'', PList [PStr ''high'']),
                (''subject_filters'', PList [PStr ''invoice''])])]))] \<and>
   wire (snd (get_incident_count
                (sample_env (sample_now + 1000000) (Failed '''')
                   (Answered (mk_response 200 '''' (JsonFail True ''Expecting value''))))
                sample_incident_filters sample_client)) =
     wire sample_client @
     [SessionRequest ''POST''
        ''https://threatprotection-api.proofpoint.com/api/v1/tric/incidents/count''
        [(''Authorization'', [Lit ''Bearer '', Val (PStr ''tok-1'')])]
        (Json (PDict
           [(''filters'', PDict
               [(''time_range_filter'',
                 PDict [(''start'', PStr ''2024-01-01 00:00:00''),
                        (''end'', PStr ''2024-01-08 00:00:00'')]),
                (''source_filters'', PList [PStr ''tap''])])]))]"
proof -
  let ?env = "sample_env (sample_now + 1000000) (Failed '''')
                   (Answered (mk_response 200 '''' (JsonFail True ''Expecting value'')))"
  have valid: "ensure_valid_token ?env sample_client = (Inr (), sample_client)"
    by (rule ensure_valid_sample_client)
  note inst = filters_serialized_without_absent_fields
    [of sample_incident_filters sample_message_filters "Some sample_incident_filters" 0 5 None
        "Some sample_message_filters" ?env sample_client sample_client]
  from inst valid
  have w1: "wire (snd (search_incidents ?env (Some sample_incident_filters) 0 5 None sample_client)) =
        wire sample_client @
        [SessionRequest ''POST'' (base_url sample_client @ ''/api/v1/tric/incidents'')
           [(''Authorization'', [Lit ''Bearer '', Val (access_token sample_client)])]
           (Json (PDict
              ([(''startRow'', PInt 0), (''endRow'', PInt 5)] @
               opt_field ''filters'' (\<lambda>f. PDict (spec_incident_filters f))
                 (Some sample_incident_filters) @
               (if truthy (py_opt_sort_params None)
                then [(''sortParams'', sort_params_dicts None)] else []))))]"
    and w2: "wire (snd (search_messages ?env (Some sample_message_filters) 0 5 None sample_client)) =
        wire sample_client @
        [SessionRequest ''POST'' (base_url sample_client @ ''/api/v1/tric/messages'')
           [(''Authorization'', [Lit ''Bearer '', Val (access_token sample_client)])]
           (Json (PDict
              ([(''startRow'', PInt 0), (''endRow'', PInt 5)] @
               opt_field ''filters'' (\<lambda>f. PDict (spec_message_filters f))
                 (Some sample_message_filters) @
               (if truthy (py_opt_sort_params None)
                then [(''sortParams'', sort_params_dicts None)] else []))))]"
    and w3: "wire (snd (get_incident_count ?env sample_incident_filters sample_client)) =
        wire sample_client @
        [SessionRequest ''POST'' (base_url sample_client @ ''/api/v1/tric/incidents/count'')
           [(''Authorization'', [Lit ''Bearer '', Val (access_token sample_client)])]
           (Json (PDict [(''filters'', PDict (spec_incident_filters sample_incident_filters))]))]"
    by blast+
  have url: "base_url sample_client = ''https://threatprotection-api.proofpoint.com''"
    and tok: "access_token sample_client = PStr ''tok-1''"
    by (simp_all add: sample_client_def default_base_url_def)
  have fi: "spec_incident_filters sample_incident_filters =
      [(''time_range_filter'',
        PDict [(''start'', PStr ''2024-01-01 00:00:00''), (''end'', PStr ''2024-01-08 00:00:00'')]),
       (''source_filters'', PList [PStr ''tap''])]"
    by (simp add: spec_incident_filters_def sample_incident_filters_def spec_time_range_def
        py_strs_def)
  have fm: "spec_message_filters sample_message_filters =
      [(''priority_filters'', PList [PStr ''high'']),
       (''subject_filters'', PList [PStr ''invoice''])]"
    by (simp add: spec_message_filters_def spec_incident_filters_def sample_message_filters_def
        py_strs_def)
  show ?thesis
    by (simp add: w1 w2 w3 url tok fi fm)
qed

text \<open>
  C6. \<open>search_incidents\<close> with filters whose only present field is
  \<open>source_filters = ["tap"]\<close>, rows 0 to 5 and no sort parameters builds exactly
  \<open>{"startRow": 0, "endRow": 5, "filters": {"source_filters": ["tap"]}}\<close>, and once
  the token is valid that is the JSON body of the POST it sends.
\<close>

theorem search_incidents_tap_body:
  "search_incidents_payload (Some tap_filters) 0 5 None =
     [(''startRow'', PInt 0), (''endRow'', PInt 5),
      (''filters'', PDict [(''source_filters'', PList [PStr ''tap''])])] \<and>
   (ensure_valid_token e s = (Inr (), s1) \<longrightarrow>
      wire (snd (search_incidents e (Some tap_filters) 0 5 None s)) =
        wire s1 @
        [SessionRequest ''POST'' (base_url s1 @ ''/api/v1/tric/incidents'')
           [(''Authorization'', [Lit ''Bearer '', Val (access_token s1)])]
           (Json (PDict
              [(''startRow'', PInt 0), (''endRow'', PInt 5),
               (''filters'', PDict [(''source_filters'', PList [PStr ''tap''])])]))])"
proof -
  have body: "search_incidents_payload (Some tap_filters) 0 5 None =
     [(''startRow'', PInt 0), (''endRow'', PInt 5),
      (''filters'', PDict [(''source_filters'', PList [PStr ''tap''])])]"
    by (simp add: search_incidents_payload_def asdict_factory_def IncidentFilters_dict_def
        py_strs_def tap_filters_def)
  show ?thesis
    by (simp add: body search_incidents_def request_sends)
qed

theorem search_incidents_tap_body_witness:
  "wire (snd (search_incidents
                (sample_env (sample_now + 1000000) (Failed '''')
                   (Answered (mk_response 200 '''' (JsonFail True ''Expecting value''))))
                (Some tap_filters) 0 5 None sample_client)) =
     wire sample_client @
     [SessionRequest ''POST'' ''https://threatprotection-api.proofpoint.com/api/v1/tric/incidents''
        [(''Authorization'', [Lit ''Bearer '', Val (PStr ''tok-1'')])]
        (Json (PDict
           [(''startRow'', PInt 0), (''endRow'', PInt 5),
            (''filters'', PDict [(''source_filters'', PList [PStr ''tap''])])]))]"
  using search_incidents_tap_body
    [of "sample_env (sample_now + 1000000) (Failed '''')
           (Answered (mk_response 200 '''' (JsonFail True ''Expecting value'')))"
        sample_client sample_client]
  by (simp add: ensure_valid_sample_client) (simp add: sample_client_def default_base_url_def)

text \<open>
  C9. \<open>asdict_factory\<close> drops a key exactly when its value is \<open>None\<close>: a field set to
  the empty list or to the empty string stays, with that value; a nested dataclass
  instance is converted by the same rule.
\<close>

theorem asdict_factory_drops_only_None:
  assumes "distinct (map fst data)" and "(k, v) \<in> set data"
  shows "(k \<in> fst ` set (asdict_factory data) \<longleftrightarrow> v \<noteq> PNone) \<and>
         (v = PList [] \<or> v = PStr [] \<longrightarrow> (k, v) \<in> set (asdict_factory data)) \<and>
         (v \<noteq> PNone \<longrightarrow> (k, convert_value v) \<in> set (asdict_factory data)) \<and>
         convert_value (PObj data) = PDict (asdict_factory data)"
proof -
  have uniq: "\<And>v'. (k, v') \<in> set data \<Longrightarrow> v' = v"
    using assms by (meson eq_key_imp_eq_value)
  have a: "k \<in> fst ` set (asdict_factory data) \<longleftrightarrow> v \<noteq> PNone"
  proof
    assume "k \<in> fst ` set (asdict_factory data)"
    then obtain v' where "(k, v') \<in> set data" and "v' \<noteq> PNone"
      by (auto simp add: set_asdict_factory)
    then show "v \<noteq> PNone" using uniq by blast
  next
    assume "v \<noteq> PNone"
    then have "(k, convert_value v) \<in> set (asdict_factory data)"
      using assms(2) by (force simp add: set_asdict_factory)
    then show "k \<in> fst ` set (asdict_factory data)" by force
  qed
  have c: "v \<noteq> PNone \<longrightarrow> (k, convert_value v) \<in> set (asdict_factory data)"
    using assms(2) by (force simp add: set_asdict_factory)
  have b: "v = PList [] \<or> v = PStr [] \<longrightarrow> (k, v) \<in> set (asdict_factory data)"
    using c by auto
  have d: "convert_value (PObj data) = PDict (asdict_factory data)"
    by (simp add: asdict_factory_def)
  show ?thesis using a b c d by blast
qed

theorem asdict_factory_drops_only_None_witness:
  "asdict_factory
     (IncidentFilters_dict
        \<lparr>time_range_filter = Some \<lparr>start = '''', end' = ''2024-01-02 00:00:00''\<rparr>,
         incident_id_filters = None, other_filters = None,
         priority_filters = None, source_filters = Some [],
         disposition_filters = None, verdict_filters = None, confidence_filters = None\<rparr>) =
   [(''time_range_filter'', PDict [(''start'', PStr ''''), (''end'', PStr ''2024-01-02 00:00:00'')]),
    (''source_filters'', PList [])] \<and>
   (''source_filters'', PList []) \<in> set (asdict_factory
     (IncidentFilters_dict
        \<lparr>time_range_filter = Some \<lparr>start = '''', end' = ''2024-01-02 00:00:00''\<rparr>,
         incident_id_filters = None, other_filters = None,
         priority_filters = None, source_filters = Some [],
         disposition_filters = None, verdict_filters = None, confidence_filters = None\<rparr>)) \<and>
   (''start'', PStr '''') \<in> set (asdict_factory
     (TimeRangeFilter_dict \<lparr>start = '''', end' = ''2024-01-02 00:00:00''\<rparr>)) \<and>
   ''priority_filters'' \<notin> fst ` set (asdict_factory
     (IncidentFilters_dict
        \<lparr>time_range_filter = Some \<lparr>start = '''', end' = ''2024-01-02 00:00:00''\<rparr>,
         incident_id_filters = None, other_filters = None,
         priority_filters = None, source_filters = Some [],
         disposition_filters = None, verdict_filters = None, confidence_filters = None\<rparr>))"
proof -
  let ?t = "\<lparr>start = '''', end' = ''2024-01-02 00:00:00''\<rparr>"
  let ?f = "\<lparr>time_range_filter = Some ?t,
         incident_id_filters = None, other_filters = None,
         priority_filters = None, source_filters = Some [],
         disposition_filters = None, verdict_filters = None, confidence_filters = None\<rparr>"
  have d1: "distinct (map fst (IncidentFilters_dict ?f))"
    by (simp add: IncidentFilters_dict_def)
  have m1: "(''source_filters'', PList []) \<in> set (IncidentFilters_dict ?f)"
    by (simp add: IncidentFilters_dict_def py_strs_def)
  have m2: "(''priority_filters'', PNone) \<in> set (IncidentFilters_dict ?f)"
    by (simp add: IncidentFilters_dict_def)
  have d3: "distinct (map fst (TimeRangeFilter_dict ?t))"
    by (simp add: TimeRangeFilter_dict_def)
  have m3: "(''start'', PStr '''') \<in> set (TimeRangeFilter_dict ?t)"
    by (simp add: TimeRangeFilter_dict_def)
  have e: "asdict_factory (IncidentFilters_dict ?f) =
   [(''time_range_filter'', PDict [(''start'', PStr ''''), (''end'', PStr ''2024-01-02 00:00:00'')]),
    (''source_filters'', PList [])]"
    by (simp add: asdict_factory_def IncidentFilters_dict_def TimeRangeFilter_dict_def py_strs_def)
  show ?thesis
    using asdict_factory_drops_only_None [OF d1 m1] asdict_factory_drops_only_None [OF d1 m2]
      asdict_factory_drops_only_None [OF d3 m3] e
    by simp
qed

text \<open>
  C10. The message object of \<open>upload_message\<close> always starts with \<open>rfcMessageId\<close> and
  \<open>recipient_addresses\<close>, whatever their values; \<open>sender\<close>, \<open>subject\<close> and
  \<open>disposition\<close> follow only when they are given and not empty, so that an empty string
  yields the payload of an argument not given. Once the token is valid,
  \<open>upload_message\<close> issues one POST whose JSON body holds that message object.
\<close>

theorem upload_message_truthy_fields:
  "upload_message_message rfc_message_id recipient_addresses sender subject disposition =
     [(''rfcMessageId'', PStr rfc_message_id),
      (''recipient_addresses'', py_strs recipient_addresses)] @
     opt_field ''sender'' PStr (if sender = Some [] then None else sender) @
     opt_field ''subject'' PStr (if subject = Some [] then None else subject) @
     opt_field ''disposition'' PStr (if disposition = Some [] then None else disposition) \<and>
   upload_message_payload incident_id rfc_message_id recipient_addresses
       (Some []) subject disposition =
     upload_message_payload incident_id rfc_message_id recipient_addresses
       None subject disposition \<and>
   upload_message_payload incident_id rfc_message_id recipient_addresses
       sender (Some []) disposition =
     upload_message_payload incident_id rfc_message_id recipient_addresses
       sender None disposition \<and>
   upload_message_payload incident_id rfc_message_id recipient_addresses
       sender subject (Some []) =
     upload_message_payload incident_id rfc_message_id recipient_addresses
       sender subject None \<and>
   upload_message_payload incident_id rfc_message_id recipient_addresses
       sender subject disposition =
     [(''incident_id'', PStr incident_id),
      (''message'', PDict (upload_message_message rfc_message_id recipient_addresses
                             sender subject disposition))] \<and>
   (ensure_valid_token e s = (Inr (), s1) \<longrightarrow>
      wire (snd (upload_message e incident_id rfc_message_id recipient_addresses
                   sender subject disposition s)) =
        wire s1 @
        [SessionRequest ''POST'' (base_url s1 @ ''/api/v1/tric/incidents/uploadMessage'')
           [(''Authorization'', [Lit ''Bearer '', Val (access_token s1)])]
           (Json (PDict
              [(''incident_id'', PStr incident_id),
               (''message'', PDict
                  ([(''rfcMessageId'', PStr rfc_message_id),
                    (''recipient_addresses'', py_strs recipient_addresses)] @
                   opt_field ''sender'' PStr (if sender = Some [] then None else sender) @
                   opt_field ''subject'' PStr (if subject = Some [] then None else subject) @
                   opt_field ''disposition'' PStr
                     (if disposition = Some [] then None else disposition)))]))])"
proof -
  have old: "upload_message_payload incident_id rfc_message_id recipient_addresses
       (Some []) subject disposition =
     upload_message_payload incident_id rfc_message_id recipient_addresses
       None subject disposition \<and>
   upload_message_payload incident_id rfc_message_id recipient_addresses
       sender (Some []) disposition =
     upload_message_payload incident_id rfc_message_id recipient_addresses
       sender None disposition \<and>
   upload_message_payload incident_id rfc_message_id recipient_addresses
       sender subject (Some []) =
     upload_message_payload incident_id rfc_message_id recipient_addresses
       sender subject None \<and>
   upload_message_payload incident_id rfc_message_id recipient_addresses
       sender subject disposition =
     [(''incident_id'', PStr incident_id),
      (''message'', PDict (upload_message_message rfc_message_id recipient_addresses
                             sender subject disposition))]"
    by (simp add: upload_message_message_eq upload_message_payload_def)
  show ?thesis
    using old upload_message_message_eq [of rfc_message_id recipient_addresses sender subject disposition]
      upload_message_sends [of e s s1 incident_id rfc_message_id recipient_addresses
        sender subject disposition]
    by blast
qed

theorem upload_message_truthy_fields_witness:
  "wire (snd (upload_message
                (sample_env (sample_now + 1000000) (Failed '''')
                   (Answered (mk_response 200 '''' (JsonFail True ''Expecting value''))))
                ''inc-1'' ''<m1@example.com>'' [''a@example.com''] (Some '''') (Some ''Hi'') None
                sample_client)) =
     wire sample_client @
     [SessionRequest ''POST''
        ''https://threatprotection-api.proofpoint.com/api/v1/tric/incidents/uploadMessage''
        [(''Authorization'', [Lit ''Bearer '', Val (PStr ''tok-1'')])]
        (Json (PDict
           [(''incident_id'', PStr ''inc-1''),
            (''message'', PDict
               [(''rfcMessageId'', PStr ''<m1@example.com>''),
                (''recipient_addresses'', PList [PStr ''a@example.com'']),
                (''subject'', PStr ''Hi'')])]))] \<and>
   wire (snd (upload_message
                (sample_env (sample_now + 1000000) (Failed '''')
                   (Answered (mk_response 200 '''' (JsonFail True ''Expecting value''))))
                ''inc-1'' '''' [] None (Some '''') (Some '''')
                sample_client)) =
     wire sample_client @
     [SessionRequest ''POST''
        ''https://threatprotection-api.proofpoint.com/api/v1/tric/incidents/uploadMessage''
        [(''Authorization'', [Lit ''Bearer '', Val (PStr ''tok-1'')])]
        (Json (PDict
           [(''incident_id'', PStr ''inc-1''),
            (''message'', PDict
               [(''rfcMessageId'', PStr ''''),
                (''recipient_addresses'', PList [])])]))]"
proof -
  let ?env = "sample_env (sample_now + 1000000) (Failed '''')
                   (Answered (mk_response 200 '''' (JsonFail True ''Expecting value'')))"
  have valid: "ensure_valid_token ?env sample_client = (Inr (), sample_client)"
    by (rule ensure_valid_sample_client)
  note first = upload_message_truthy_fields
    [of "''<m1@example.com>''" "[''a@example.com'']" "Some ''''" "Some ''Hi''" None "''inc-1''"
        ?env sample_client sample_client,
     THEN conjunct2, THEN conjunct2, THEN conjunct2, THEN conjunct2, THEN conjunct2,
     THEN mp, OF valid]
  note second = upload_message_truthy_fields
    [of "''''" "[]" None "Some ''''" "Some ''''" "''inc-1''"
        ?env sample_client sample_client,
     THEN conjunct2, THEN conjunct2, THEN conjunct2, THEN conjunct2, THEN conjunct2,
     THEN mp, OF valid]
  have url: "base_url sample_client = ''https://threatprotection-api.proofpoint.com''"
    and tok: "access_token sample_client = PStr ''tok-1''"
    by (simp_all add: sample_client_def default_base_url_def)
  show ?thesis
    using first second by (simp add: url tok py_strs_def)
qed

end
